theory Spec2Isabelle
  imports Main
begin

section \<open>Python values used by the handlers\<close>

text \<open>
  The service is one Flask module, \<^verbatim>\<open>conversion_server.py\<close>, with two request handlers:
  \<^verbatim>\<open>convert_model\<close> (POST /convert) and \<^verbatim>\<open>health\<close> (GET /health). Everything outside
  the module (the interpreter's import system, the file system, the JSON codec, TensorFlow
  and TensorFlow.js) is a parameter of the model, collected in the record \<open>env\<close> below.

  A JSON document as \<^verbatim>\<open>json.load\<close> returns it. A Python \<^verbatim>\<open>dict\<close> keeps its keys in
  insertion order, so an object is an association list (a dict holds each key once; where
  a list here should hold a key twice, the first entry counts); numbers are never inspected
  by the handlers, a float is kept as its literal.
\<close>

datatype json =
    JNull
  | JBool bool
  | JInt int
  | JFloat string
  | JStr string
  | JArr "json list"
  | JObj "(string \<times> json) list"

text \<open>\<^verbatim>\<open>d[k] = v\<close> on a dict: an existing key keeps its position, a new key goes last.\<close>

fun dict_set :: "string \<Rightarrow> json \<Rightarrow> (string \<times> json) list \<Rightarrow> (string \<times> json) list" where
  "dict_set k v [] = [(k, v)]"
| "dict_set k v (p # ps) = (if fst p = k then (k, v) # ps else p # dict_set k v ps)"

text \<open>\<^verbatim>\<open>sub in s\<close> on two strings: \<open>sub\<close> occurs in \<open>s\<close> as a contiguous run.\<close>

fun str_contains :: "string \<Rightarrow> string \<Rightarrow> bool" where
  "str_contains [] sub = (sub = [])"
| "str_contains (c # cs) sub = (take (length sub) (c # cs) = sub \<or> str_contains cs sub)"

text \<open>
  \<^verbatim>\<open>str.lower()\<close>. A \<open>char\<close> is a byte; the ASCII capitals are mapped to their small
  letters and every other byte is kept. (Python lower-cases characters outside ASCII too;
  none of them becomes one of the letters of \<open>true\<close>, the one word the handler compares
  a lower-cased string with.)
\<close>

definition lower_char :: "char \<Rightarrow> char" where
  "lower_char c =
     (let n = (of_char c :: nat) in if 65 \<le> n \<and> n \<le> 90 then char_of (n + 32) else c)"

definition lower :: "string \<Rightarrow> string" where
  "lower s = map lower_char s"

text \<open>\<^verbatim>\<open>os.path.join(a, b)\<close> for two components (posixpath).\<close>

definition path_join :: "string \<Rightarrow> string \<Rightarrow> string" where
  "path_join a b =
     (if b \<noteq> [] \<and> hd b = CHR ''/'' then b
      else if a = [] \<or> last a = CHR ''/'' then a @ b
      else a @ ''/'' @ b)"

subsection \<open>Exceptions\<close>

text \<open>
  An exception is its class and its message (\<^verbatim>\<open>str(e)\<close>). Every class here derives from
  \<^verbatim>\<open>Exception\<close>; \<^verbatim>\<open>ModuleNotFoundError\<close> derives from \<^verbatim>\<open>ImportError\<close>. The
  interpreter's exit signals (\<^verbatim>\<open>KeyboardInterrupt\<close>, \<^verbatim>\<open>SystemExit\<close>) and resource
  exhaustion are not modelled.
\<close>

datatype exn_class =
    ImportError
  | ModuleNotFoundError
  | JSONDecodeError
  | TypeError
  | AttributeError
  | KeyError
  | FileNotFoundError
  | OSError
  | OtherException

datatype exn = Exn exn_class string

fun str_exn :: "exn \<Rightarrow> string" where
  "str_exn (Exn c m) = m"

fun is_ImportError :: "exn \<Rightarrow> bool" where
  "is_ImportError (Exn c m) = (c = ImportError \<or> c = ModuleNotFoundError)"

fun is_JSONDecodeError :: "exn \<Rightarrow> bool" where
  "is_JSONDecodeError (Exn c m) = (c = JSONDecodeError)"

text \<open>
  The faults the interpreter itself raises in the handler's own statements. Their wording
  differs between CPython versions, so the text is taken from the environment.
\<close>

datatype py_fault =
    NotIterable
  | BadSubscript
  | NoItemAssignment
  | NoAttribute
  | NoSuchKey
  | NoSuchFile

section \<open>Requests, responses and the world outside the module\<close>

record file_storage =
  filename :: string
  data :: string

text \<open>
  \<^verbatim>\<open>request.files\<close>, \<^verbatim>\<open>request.form\<close> and \<^verbatim>\<open>request.args\<close> are multi-dicts: a key may
  occur several times, \<^verbatim>\<open>in\<close> asks whether it occurs and \<^verbatim>\<open>get\<close> and \<^verbatim>\<open>[]\<close> return the
  first value.
\<close>

record request =
  files :: "(string \<times> file_storage) list"
  form :: "(string \<times> string) list"
  args :: "(string \<times> string) list"

datatype payload = Json json | Bytes string

record response =
  status :: nat
  mimetype :: string
  payload :: payload
  download_name :: "string option"

text \<open>\<^verbatim>\<open>jsonify(obj)\<close>, and \<^verbatim>\<open>jsonify(obj), code\<close> as a view's return value.\<close>

definition jsonify :: "json \<Rightarrow> response" where
  "jsonify obj = \<lparr>status = 200, mimetype = ''application/json'', payload = Json obj,
     download_name = None\<rparr>"

definition with_status :: "response \<Rightarrow> nat \<Rightarrow> response" where
  "with_status r code = r\<lparr>status := code\<rparr>"

datatype optimize = DEFAULT | OPTIMIZE_FOR_SIZE | OPTIMIZE_FOR_LATENCY | EXPERIMENTAL_SPARSITY

datatype dtype = float16 | float32 | int8 | uint8 | int16 | int32

text \<open>
  A \<^verbatim>\<open>TFLiteConverter\<close>: the Keras model it was made from and the two attributes the
  handler assigns (\<^verbatim>\<open>optimizations\<close> and \<^verbatim>\<open>target_spec.supported_types\<close>). The Keras
  model is opaque: a type parameter.
\<close>

record 'm converter =
  keras_model :: 'm
  optimizations :: "optimize list"
  supported_types :: "dtype list"

text \<open>The calls that leave the module or can raise, with their arguments.\<close>

datatype 'm call =
    Mkdtemp string
  | Save string string
  | ReadJson string
  | PatchManifest
  | WriteJson string string
  | TopologyKeys
  | Getsize string
  | LoadKerasModel string
  | Summary 'm
  | FromKerasModel 'm
  | Convert "'m converter"
  | WriteBytes string string
  | SendFile string
  | Rmtree string

datatype 'm event = Did "'m call" | Raised "'m call" exn

text \<open>
  The world a request runs in: the directories and files that exist, and the log of the
  calls made so far with their outcome.
\<close>

record 'm world =
  fs_dirs :: "string set"
  fs_files :: "string \<rightharpoonup> string"
  trace :: "'m event list"

text \<open>
  The environment answers for everything the module does not define: whether each import
  succeeds (and the version it finds), the JSON codec, the name \<^verbatim>\<open>tempfile\<close> picks,
  which external calls raise (\<open>fault c = Some e\<close>: the call \<open>c\<close> raises \<open>e\<close>), and what
  TensorFlow.js and TensorFlow return when they do not. Apart from the handler's own calls
  nothing changes the file system while a request runs.
\<close>

record 'm env =
  import_tensorflow :: "exn + string"
  import_tensorflowjs :: "exn + string"
  json_loads :: "string \<Rightarrow> exn + json"
  json_dumps :: "json \<Rightarrow> string"
  tempdir :: string
  random_name :: string
  fault :: "'m call \<Rightarrow> exn option"
  fault_text :: "py_fault \<Rightarrow> string"
  loaded_model :: "string \<Rightarrow> (string \<rightharpoonup> string) \<Rightarrow> 'm"
  fresh_converter :: "'m \<Rightarrow> 'm converter"
  tflite_bytes :: "'m converter \<Rightarrow> string"

section \<open>Running a sequence of calls that may raise\<close>

type_synonym ('m, 'a) act = "'m world \<Rightarrow> (exn + 'a) \<times> 'm world"

definition returnE :: "'a \<Rightarrow> ('m, 'a) act" where
  "returnE x w = (Inr x, w)"

definition bindE :: "('m, 'a) act \<Rightarrow> ('a \<Rightarrow> ('m, 'b) act) \<Rightarrow> ('m, 'b) act" where
  "bindE m f w = (case m w of (Inl e, w') \<Rightarrow> (Inl e, w') | (Inr x, w') \<Rightarrow> f x w')"

definition log :: "'m event \<Rightarrow> 'm world \<Rightarrow> 'm world" where
  "log ev w = w\<lparr>trace := trace w @ [ev]\<rparr>"

text \<open>
  One call: it raises, and the world is as before, or it returns and has had its effect.
  Either way the log has one more entry.
\<close>

definition perform ::
  "'m call \<Rightarrow> (exn + 'a) \<Rightarrow> ('m world \<Rightarrow> 'm world) \<Rightarrow> ('m, 'a) act" where
  "perform c outcome effect w =
     (case outcome of
        Inl e \<Rightarrow> (Inl e, log (Raised c e) w)
      | Inr v \<Rightarrow> (Inr v, log (Did c) (effect w)))"

definition outcome_of :: "'m env \<Rightarrow> 'm call \<Rightarrow> 'a \<Rightarrow> exn + 'a" where
  "outcome_of env c v = (case fault env c of Some e \<Rightarrow> Inl e | None \<Rightarrow> Inr v)"

section \<open>The steps of \<^verbatim>\<open>convert_model\<close>\<close>

subsection \<open>Reading the request (lines 51 to 65)\<close>

text \<open>
  \<^verbatim>\<open>k in request.files\<close> holds when the key occurs, and then \<^verbatim>\<open>request.files[k]\<close> is
  its first value: \<open>map_of (files req) k\<close> is that value, and \<open>None\<close> when the key does
  not occur.
\<close>

definition has_file :: "request \<Rightarrow> string \<Rightarrow> bool" where
  "has_file req k = (k \<in> fst ` set (files req))"

definition metadata_str :: "request \<Rightarrow> string" where
  "metadata_str req = (case map_of (form req) ''metadata'' of None \<Rightarrow> ''{}'' | Some s \<Rightarrow> s)"

definition quantize_flag :: "request \<Rightarrow> bool" where
  "quantize_flag req =
     (lower (case map_of (args req) ''quantize'' of None \<Rightarrow> ''false'' | Some v \<Rightarrow> v) = ''true'')"

text \<open>
  The inner \<^verbatim>\<open>try\<close> around \<^verbatim>\<open>json.loads(metadata_str)\<close>: a \<^verbatim>\<open>JSONDecodeError\<close> gives
  the empty dict, any other exception goes on to the outer handler.
\<close>

definition parse_metadata :: "'m env \<Rightarrow> string \<Rightarrow> exn + json" where
  "parse_metadata env s =
     (case json_loads env s of
        Inr j \<Rightarrow> Inr j
      | Inl e \<Rightarrow> if is_JSONDecodeError e then Inr (JObj []) else Inl e)"

subsection \<open>Staging the uploads (lines 68 to 78)\<close>

definition mkdtemp_path :: "'m env \<Rightarrow> string \<Rightarrow> string" where
  "mkdtemp_path env pre = path_join (tempdir env) (pre @ random_name env)"

definition mkdtemp :: "'m env \<Rightarrow> string \<Rightarrow> ('m, string) act" where
  "mkdtemp env pre =
     perform (Mkdtemp pre) (outcome_of env (Mkdtemp pre) (mkdtemp_path env pre))
       (\<lambda>w. w\<lparr>fs_dirs := insert (mkdtemp_path env pre) (fs_dirs w)\<rparr>)"

definition save :: "'m env \<Rightarrow> file_storage \<Rightarrow> string \<Rightarrow> ('m, unit) act" where
  "save env f p =
     perform (Save p (data f)) (outcome_of env (Save p (data f)) ())
       (\<lambda>w. w\<lparr>fs_files := (fs_files w)(p \<mapsto> data f)\<rparr>)"

definition read_json :: "'m env \<Rightarrow> string \<Rightarrow> ('m, json) act" where
  "read_json env p w =
     perform (ReadJson p)
       (case fault env (ReadJson p) of
          Some e \<Rightarrow> Inl e
        | None \<Rightarrow>
            (case fs_files w p of
               None \<Rightarrow> Inl (Exn FileNotFoundError (fault_text env NoSuchFile))
             | Some s \<Rightarrow> json_loads env s))
       (\<lambda>w. w) w"

subsection \<open>Patching the weight manifest (lines 81 to 86)\<close>

text \<open>\<^verbatim>\<open>k in x\<close> for a string \<open>k\<close> and a value \<open>x\<close> that \<^verbatim>\<open>json.load\<close> returned.\<close>

fun py_contains :: "'m env \<Rightarrow> json \<Rightarrow> string \<Rightarrow> exn + bool" where
  "py_contains env (JObj kvs) k = Inr (k \<in> fst ` set kvs)"
| "py_contains env (JArr xs) k = Inr (JStr k \<in> set xs)"
| "py_contains env (JStr s) k = Inr (str_contains s k)"
| "py_contains env x k = Inl (Exn TypeError (fault_text env NotIterable))"

text \<open>\<^verbatim>\<open>x[k]\<close> for a string \<open>k\<close>, once \<^verbatim>\<open>k in x\<close> has been found true.\<close>

fun py_getitem :: "'m env \<Rightarrow> json \<Rightarrow> string \<Rightarrow> exn + json" where
  "py_getitem env (JObj kvs) k =
     (case map_of kvs k of
        Some v \<Rightarrow> Inr v
      | None \<Rightarrow> Inl (Exn KeyError (fault_text env NoSuchKey)))"
| "py_getitem env x k = Inl (Exn TypeError (fault_text env BadSubscript))"

text \<open>
  What \<^verbatim>\<open>for manifest in x\<close> visits: the elements of a list, the keys of a dict, the
  characters of a string.
\<close>

fun py_iter :: "'m env \<Rightarrow> json \<Rightarrow> exn + json list" where
  "py_iter env (JArr xs) = Inr xs"
| "py_iter env (JObj kvs) = Inr (map (\<lambda>p. JStr (fst p)) kvs)"
| "py_iter env (JStr s) = Inr (map (\<lambda>c. JStr [c]) s)"
| "py_iter env x = Inl (Exn TypeError (fault_text env NotIterable))"

text \<open>\<^verbatim>\<open>manifest['paths'] = ['weights.bin']\<close>\<close>

fun set_paths :: "'m env \<Rightarrow> json \<Rightarrow> exn + json" where
  "set_paths env (JObj kvs) = Inr (JObj (dict_set ''paths'' (JArr [JStr ''weights.bin'']) kvs))"
| "set_paths env x = Inl (Exn TypeError (fault_text env NoItemAssignment))"

text \<open>The loop body applied to each visited value in turn, up to the first that raises.\<close>

fun set_all_paths :: "'m env \<Rightarrow> json list \<Rightarrow> exn + json list" where
  "set_all_paths env [] = Inr []"
| "set_all_paths env (x # xs) =
     (case set_paths env x of
        Inl e \<Rightarrow> Inl e
      | Inr x' \<Rightarrow>
          (case set_all_paths env xs of
             Inl e \<Rightarrow> Inl e
           | Inr xs' \<Rightarrow> Inr (x' # xs')))"

text \<open>
  The assignments change the visited dicts in place, so the list under
  \<^verbatim>\<open>weightsManifest\<close> holds the changed dicts afterwards. A loop that ends without raising
  over something that is not a list (an empty dict, an empty string) has changed nothing.
\<close>

fun put_back :: "json \<Rightarrow> json list \<Rightarrow> json" where
  "put_back (JArr xs) ys = JArr ys"
| "put_back x ys = x"

definition with_manifest :: "json \<Rightarrow> json \<Rightarrow> json" where
  "with_manifest cfg wm =
     (case cfg of JObj kvs \<Rightarrow> JObj (dict_set ''weightsManifest'' wm kvs) | _ \<Rightarrow> cfg)"

text \<open>
  Lines 81 to 83. The result is the configuration after the loop, and whether the
  \<^verbatim>\<open>if\<close> branch was taken (the file is rewritten only then).
\<close>

definition patch_manifest :: "'m env \<Rightarrow> json \<Rightarrow> exn + (json \<times> bool)" where
  "patch_manifest env model_config =
     (case py_contains env model_config ''weightsManifest'' of
        Inl e \<Rightarrow> Inl e
      | Inr False \<Rightarrow> Inr (model_config, False)
      | Inr True \<Rightarrow>
          (case py_getitem env model_config ''weightsManifest'' of
             Inl e \<Rightarrow> Inl e
           | Inr wm \<Rightarrow>
               (case py_iter env wm of
                  Inl e \<Rightarrow> Inl e
                | Inr ms \<Rightarrow>
                    (case set_all_paths env ms of
                       Inl e \<Rightarrow> Inl e
                     | Inr ms' \<Rightarrow> Inr (with_manifest model_config (put_back wm ms'), True)))))"

definition write_json :: "'m env \<Rightarrow> string \<Rightarrow> json \<Rightarrow> ('m, unit) act" where
  "write_json env p j =
     perform (WriteJson p (json_dumps env j)) (outcome_of env (WriteJson p (json_dumps env j)) ())
       (\<lambda>w. w\<lparr>fs_files := (fs_files w)(p \<mapsto> json_dumps env j)\<rparr>)"

definition patch_and_rewrite :: "'m env \<Rightarrow> string \<Rightarrow> json \<Rightarrow> ('m, json) act" where
  "patch_and_rewrite env p model_config =
     bindE (perform PatchManifest (patch_manifest env model_config) (\<lambda>w. w))
       (\<lambda>(cfg, rewrite).
          if rewrite then bindE (write_json env p cfg) (\<lambda>_. returnE cfg) else returnE cfg)"

subsection \<open>The two values printed before loading (lines 89 and 90)\<close>

text \<open>
  Standard output is not modelled, only what evaluating the printed expressions can raise:
  \<^verbatim>\<open>model_config.get\<close> exists on a dict only.
\<close>

fun topology_keys :: "'m env \<Rightarrow> json \<Rightarrow> exn + string list option" where
  "topology_keys env (JObj kvs) =
     Inr (case map_of kvs ''modelTopology'' of
            Some (JObj t) \<Rightarrow> Some (map fst t)
          | _ \<Rightarrow> None)"
| "topology_keys env x = Inl (Exn AttributeError (fault_text env NoAttribute))"

definition getsize :: "'m env \<Rightarrow> string \<Rightarrow> ('m, nat) act" where
  "getsize env p w =
     perform (Getsize p)
       (case fault env (Getsize p) of
          Some e \<Rightarrow> Inl e
        | None \<Rightarrow>
            (case fs_files w p of
               None \<Rightarrow> Inl (Exn FileNotFoundError (fault_text env NoSuchFile))
             | Some s \<Rightarrow> Inr (length s)))
       (\<lambda>w. w) w"

subsection \<open>Loading and converting (lines 93 to 120)\<close>

definition load_keras_model :: "'m env \<Rightarrow> string \<Rightarrow> ('m, 'm) act" where
  "load_keras_model env p w =
     perform (LoadKerasModel p)
       (outcome_of env (LoadKerasModel p) (loaded_model env p (fs_files w))) (\<lambda>w. w) w"

definition summary :: "'m env \<Rightarrow> 'm \<Rightarrow> ('m, unit) act" where
  "summary env m = perform (Summary m) (outcome_of env (Summary m) ()) (\<lambda>w. w)"

definition from_keras_model :: "'m env \<Rightarrow> 'm \<Rightarrow> ('m, 'm converter) act" where
  "from_keras_model env m =
     perform (FromKerasModel m) (outcome_of env (FromKerasModel m) (fresh_converter env m))
       (\<lambda>w. w)"

text \<open>Lines 100 to 105: the two assignments made when \<^verbatim>\<open>quantize\<close> is true.\<close>

definition configure :: "bool \<Rightarrow> 'm converter \<Rightarrow> 'm converter" where
  "configure quantize c =
     (if quantize then c\<lparr>optimizations := [DEFAULT], supported_types := [float16]\<rparr> else c)"

definition convert :: "'m env \<Rightarrow> 'm converter \<Rightarrow> ('m, string) act" where
  "convert env c = perform (Convert c) (outcome_of env (Convert c) (tflite_bytes env c)) (\<lambda>w. w)"

definition write_bytes :: "'m env \<Rightarrow> string \<Rightarrow> string \<Rightarrow> ('m, unit) act" where
  "write_bytes env p b =
     perform (WriteBytes p b) (outcome_of env (WriteBytes p b) ())
       (\<lambda>w. w\<lparr>fs_files := (fs_files w)(p \<mapsto> b)\<rparr>)"

text \<open>\<^verbatim>\<open>send_file\<close> opens the file when it is called; the response carries its bytes.\<close>

definition send_file :: "'m env \<Rightarrow> string \<Rightarrow> string \<Rightarrow> string \<Rightarrow> ('m, response) act" where
  "send_file env p mime name w =
     perform (SendFile p)
       (case fault env (SendFile p) of
          Some e \<Rightarrow> Inl e
        | None \<Rightarrow>
            (case fs_files w p of
               None \<Rightarrow> Inl (Exn FileNotFoundError (fault_text env NoSuchFile))
             | Some b \<Rightarrow>
                 Inr \<lparr>status = 200, mimetype = mime, payload = Bytes b,
                      download_name = Some name\<rparr>))
       (\<lambda>w. w) w"

subsection \<open>The body of the \<^verbatim>\<open>try\<close> once the scratch directory exists (lines 69 to 120)\<close>

text \<open>
  The body is one sequence of statements; it is cut here where the source has its comment
  headings. Lines 69 to 86: save both uploads, read the topology back, patch it.
\<close>

definition stage_uploads ::
  "'m env \<Rightarrow> file_storage \<Rightarrow> file_storage \<Rightarrow> string \<Rightarrow> ('m, json) act" where
  "stage_uploads env model_json_file weights_bin_file tmp_dir =
     bindE (save env model_json_file (path_join tmp_dir ''model.json'')) (\<lambda>_.
     bindE (save env weights_bin_file (path_join tmp_dir ''weights.bin'')) (\<lambda>_.
     bindE (read_json env (path_join tmp_dir ''model.json'')) (\<lambda>model_config.
     patch_and_rewrite env (path_join tmp_dir ''model.json'') model_config)))"

text \<open>Lines 88 to 94: the printed values, \<^verbatim>\<open>load_keras_model\<close>, \<^verbatim>\<open>model.summary()\<close>.\<close>

definition load_model :: "'m env \<Rightarrow> string \<Rightarrow> json \<Rightarrow> ('m, 'm) act" where
  "load_model env tmp_dir model_config =
     bindE (perform TopologyKeys (topology_keys env model_config) (\<lambda>w. w)) (\<lambda>_.
     bindE (getsize env (path_join tmp_dir ''weights.bin'')) (\<lambda>_.
     bindE (load_keras_model env (path_join tmp_dir ''model.json'')) (\<lambda>model.
     bindE (summary env model) (\<lambda>_. returnE model))))"

text \<open>Lines 97 to 108: make the converter, configure it, convert.\<close>

definition to_tflite :: "'m env \<Rightarrow> bool \<Rightarrow> 'm \<Rightarrow> ('m, string) act" where
  "to_tflite env quantize model =
     bindE (from_keras_model env model) (\<lambda>converter.
     convert env (configure quantize converter))"

text \<open>Lines 111 to 120: write the result into the scratch directory and send it.\<close>

definition deliver :: "'m env \<Rightarrow> string \<Rightarrow> string \<Rightarrow> ('m, response) act" where
  "deliver env tmp_dir tflite_model =
     bindE (write_bytes env (path_join tmp_dir ''model.tflite'') tflite_model) (\<lambda>_.
     send_file env (path_join tmp_dir ''model.tflite'') ''application/octet-stream''
       ''model.tflite'')"

text \<open>
  \<^verbatim>\<open>metadata\<close> is a local variable of the handler from line 63 on; no later line reads it.
\<close>

definition convert_staged ::
  "'m env \<Rightarrow> file_storage \<Rightarrow> file_storage \<Rightarrow> bool \<Rightarrow> json \<Rightarrow> string \<Rightarrow> ('m, response) act" where
  "convert_staged env model_json_file weights_bin_file quantize metadata tmp_dir =
     bindE (stage_uploads env model_json_file weights_bin_file tmp_dir) (\<lambda>model_config.
     bindE (load_model env tmp_dir model_config) (\<lambda>model.
     bindE (to_tflite env quantize model) (\<lambda>tflite_model.
     deliver env tmp_dir tflite_model)))"

subsection \<open>The whole \<^verbatim>\<open>try\<close> (lines 39 to 120)\<close>

definition error_response :: "nat \<Rightarrow> string \<Rightarrow> response" where
  "error_response code msg = with_status (jsonify (JObj [(''error'', JStr msg)])) code"

definition missing_dependency :: "exn \<Rightarrow> string" where
  "missing_dependency e =
     ''Missing dependency: '' @ str_exn e @ ''. ''
       @ ''Install with: pip install tensorflow tensorflowjs''"

text \<open>
  The two imports of lines 42 and 43 under their own \<^verbatim>\<open>except ImportError\<close>: the second
  is tried only when the first succeeds. \<open>Inr None\<close>: both succeeded; \<open>Inr (Some r)\<close>: the
  handler returns \<open>r\<close>; \<open>Inl e\<close>: an exception that is not an \<^verbatim>\<open>ImportError\<close>.
\<close>

definition import_both :: "'m env \<Rightarrow> exn + response option" where
  "import_both env =
     (case import_tensorflow env of
        Inl e \<Rightarrow>
          if is_ImportError e then Inr (Some (error_response 500 (missing_dependency e)))
          else Inl e
      | Inr _ \<Rightarrow>
          (case import_tensorflowjs env of
             Inl e \<Rightarrow>
               if is_ImportError e then Inr (Some (error_response 500 (missing_dependency e)))
               else Inl e
           | Inr _ \<Rightarrow> Inr None))"

text \<open>
  The result of the \<^verbatim>\<open>try\<close> body: what it returned or raised, the value of \<^verbatim>\<open>tmp_dir\<close>
  when it ended, and the world.
\<close>

definition convert_try ::
  "'m env \<Rightarrow> request \<Rightarrow> 'm world \<Rightarrow> (exn + response) \<times> string option \<times> 'm world" where
  "convert_try env req w =
     (case import_both env of
        Inl e \<Rightarrow> (Inl e, None, w)
      | Inr (Some r) \<Rightarrow> (Inr r, None, w)
      | Inr None \<Rightarrow>
          (case map_of (files req) ''model_json'' of
             None \<Rightarrow> (Inr (error_response 400 ''Missing model_json file''), None, w)
           | Some model_json_file \<Rightarrow>
               (case map_of (files req) ''weights_bin'' of
                  None \<Rightarrow> (Inr (error_response 400 ''Missing weights_bin file''), None, w)
                | Some weights_bin_file \<Rightarrow>
                    (case parse_metadata env (metadata_str req) of
                       Inl e \<Rightarrow> (Inl e, None, w)
                     | Inr metadata \<Rightarrow>
                         (case mkdtemp env ''tfjs_convert_'' w of
                            (Inl e, w1) \<Rightarrow> (Inl e, None, w1)
                          | (Inr tmp_dir, w1) \<Rightarrow>
                              (case convert_staged env model_json_file weights_bin_file
                                      (quantize_flag req) metadata tmp_dir w1 of
                                 (r, w2) \<Rightarrow> (r, Some tmp_dir, w2)))))))"

subsection \<open>\<^verbatim>\<open>except\<close> and \<^verbatim>\<open>finally\<close> (lines 122 to 133)\<close>

definition path_exists :: "'m world \<Rightarrow> string \<Rightarrow> bool" where
  "path_exists w p = (p \<in> fs_dirs w \<or> fs_files w p \<noteq> None)"

definition under :: "string \<Rightarrow> string \<Rightarrow> bool" where
  "under d p = (take (length d + 1) p = d @ ''/'')"

text \<open>
  \<^verbatim>\<open>shutil.rmtree(d)\<close> when it does not raise: the directory and all below it are gone.
  When it raises, the directory itself is still there (it is removed last); what had been
  removed below it by then is not modelled, the world is left as it was.
\<close>

definition rmtree_effect :: "string \<Rightarrow> 'm world \<Rightarrow> 'm world" where
  "rmtree_effect d w =
     w\<lparr>fs_dirs := Set.filter (\<lambda>p. \<not> (p = d \<or> under d p)) (fs_dirs w),
       fs_files := (\<lambda>p. if p = d \<or> under d p then None else fs_files w p)\<rparr>"

definition cleanup :: "'m env \<Rightarrow> string option \<Rightarrow> 'm world \<Rightarrow> 'm world" where
  "cleanup env tmp_dir w =
     (case tmp_dir of
        None \<Rightarrow> w
      | Some d \<Rightarrow>
          if d \<noteq> [] \<and> path_exists w d then
            snd (perform (Rmtree d) (outcome_of env (Rmtree d) ()) (rmtree_effect d) w)
          else w)"

definition convert_model :: "'m env \<Rightarrow> request \<Rightarrow> 'm world \<Rightarrow> response \<times> 'm world" where
  "convert_model env req w =
     (case convert_try env req w of
        (r, tmp_dir, w') \<Rightarrow>
          ((case r of Inr resp \<Rightarrow> resp | Inl e \<Rightarrow> error_response 500 (str_exn e)),
           cleanup env tmp_dir w'))"

section \<open>\<^verbatim>\<open>health\<close> (lines 137 to 150)\<close>

text \<open>
  Each import has its own \<^verbatim>\<open>except ImportError\<close>; an exception of another class leaves
  the handler.
\<close>

definition probe :: "exn + string \<Rightarrow> exn + string" where
  "probe imp =
     (case imp of
        Inr v \<Rightarrow> Inr v
      | Inl e \<Rightarrow> if is_ImportError e then Inr ''not installed'' else Inl e)"

definition health :: "'m env \<Rightarrow> exn + response" where
  "health env =
     (let status0 = [(''status'', JStr ''ok''), (''server'', JStr ''tfjs-to-tflite-converter'')]
      in case probe (import_tensorflow env) of
           Inl e \<Rightarrow> Inl e
         | Inr v1 \<Rightarrow>
             (let status1 = dict_set ''tensorflow'' (JStr v1) status0
              in case probe (import_tensorflowjs env) of
                   Inl e \<Rightarrow> Inl e
                 | Inr v2 \<Rightarrow> Inr (jsonify (JObj (dict_set ''tensorflowjs'' (JStr v2) status1)))))"

section \<open>What a run adds to the log\<close>

definition new_events :: "'m world \<Rightarrow> 'm world \<Rightarrow> 'm event list" where
  "new_events w w' = drop (length (trace w)) (trace w')"

fun call_of :: "'m event \<Rightarrow> 'm call" where
  "call_of (Did c) = c"
| "call_of (Raised c e) = c"

fun is_Rmtree :: "'m call \<Rightarrow> bool" where
  "is_Rmtree (Rmtree d) = True"
| "is_Rmtree c = False"

fun is_LoadKerasModel :: "'m call \<Rightarrow> bool" where
  "is_LoadKerasModel (LoadKerasModel p) = True"
| "is_LoadKerasModel c = False"

definition raised :: "exn + 'a \<Rightarrow> exn option" where
  "raised r = (case r of Inl e \<Rightarrow> Some e | Inr x \<Rightarrow> None)"

text \<open>
  \<open>tidy S m\<close>: whatever the world, \<open>m\<close> only appends to the log, creates and removes no
  directory, makes calls of \<open>S\<close> only, and an exception in what it appends is the exception
  it ends with.
\<close>

definition tidy :: "'m call set \<Rightarrow> ('m, 'a) act \<Rightarrow> bool" where
  "tidy S m =
     (\<forall>w. \<exists>evs. trace (snd (m w)) = trace w @ evs \<and> fs_dirs (snd (m w)) = fs_dirs w
        \<and> call_of ` set evs \<subseteq> S
        \<and> (\<forall>c e. Raised c e \<in> set evs \<longrightarrow> raised (fst (m w)) = Some e))"

text \<open>
  The calls \<^verbatim>\<open>convert_model\<close> may make between creating the scratch directory \<open>d\<close> and
  the \<^verbatim>\<open>finally\<close> block, for a request whose \<^verbatim>\<open>quantize\<close> flag is \<open>q\<close>: no
  \<^verbatim>\<open>rmtree\<close>, the loader only on the staged \<^verbatim>\<open>model.json\<close>, the converter only as
  lines 100 to 105 leave it.
\<close>

definition staged_calls :: "'m env \<Rightarrow> bool \<Rightarrow> string \<Rightarrow> 'm call set" where
  "staged_calls env q d =
     {c. \<not> is_Rmtree c
         \<and> (\<forall>p. c = LoadKerasModel p \<longrightarrow> p = path_join d ''model.json'')
         \<and> (\<forall>cv. c = Convert cv \<longrightarrow> (\<exists>m. cv = configure q (fresh_converter env m)))}"

text \<open>The world right after \<^verbatim>\<open>tempfile.mkdtemp\<close> has returned.\<close>

definition created :: "'m env \<Rightarrow> 'm world \<Rightarrow> 'm world" where
  "created env w =
     log (Did (Mkdtemp ''tfjs_convert_''))
       (w\<lparr>fs_dirs := insert (mkdtemp_path env ''tfjs_convert_'') (fs_dirs w)\<rparr>)"

section \<open>Example environments and requests\<close>

definition example_topology :: json where
  "example_topology =
     JObj [(''modelTopology'', JObj [(''class_name'', JStr ''Sequential'')]),
           (''weightsManifest'',
              JArr [JObj [(''paths'', JArr [JStr ''group1-shard1of1.bin'']),
                          (''weights'', JArr [])]])]"

text \<open>The same document with the manifest entry pointing at \<open>weights.bin\<close>.\<close>

definition example_patched :: json where
  "example_patched =
     JObj [(''modelTopology'', JObj [(''class_name'', JStr ''Sequential'')]),
           (''weightsManifest'',
              JArr [JObj [(''paths'', JArr [JStr ''weights.bin'']),
                          (''weights'', JArr [])]])]"

text \<open>
  An installation where everything works. The codec knows two documents to read, \<open>{}\<close>
  and the upload \<open>topology\<close>, which stands for the text of \<open>example_topology\<close>; it
  writes \<open>example_patched\<close> as \<open>patched topology\<close>.
\<close>

definition example_env :: "string env" where
  "example_env =
     \<lparr>import_tensorflow = Inr ''2.15.0'',
      import_tensorflowjs = Inr ''4.17.0'',
      json_loads = (\<lambda>s. if s = ''{}'' then Inr (JObj [])
                          else if s = ''topology'' then Inr example_topology
                          else Inl (Exn JSONDecodeError ''Expecting value'')),
      json_dumps = (\<lambda>j. if j = example_patched then ''patched topology'' else ''other''),
      tempdir = ''/tmp'',
      random_name = ''k3x9'',
      fault = (\<lambda>c. None),
      fault_text = (\<lambda>f. ''not supported''),
      loaded_model = (\<lambda>p fs. ''keras''),
      fresh_converter = (\<lambda>m. \<lparr>keras_model = m, optimizations = [], supported_types = []\<rparr>),
      tflite_bytes = (\<lambda>c. ''TFL3'')\<rparr>"

definition example_request :: request where
  "example_request =
     \<lparr>files = [(''model_json'', \<lparr>filename = ''model.json'', data = ''topology''\<rparr>),
               (''weights_bin'', \<lparr>filename = ''weights.bin'', data = ''0000''\<rparr>)],
      form = [(''metadata'', ''{not json'')],
      args = [(''quantize'', ''True'')]\<rparr>"

definition empty_request :: request where
  "empty_request = \<lparr>files = [], form = [], args = []\<rparr>"

definition no_tensorflow_env :: "string env" where
  "no_tensorflow_env =
     example_env\<lparr>import_tensorflow :=
       Inl (Exn ModuleNotFoundError ''No module named tensorflow'')\<rparr>"

definition no_tensorflowjs_env :: "string env" where
  "no_tensorflowjs_env =
     example_env\<lparr>import_tensorflowjs :=
       Inl (Exn ModuleNotFoundError ''No module named tensorflowjs'')\<rparr>"

text \<open>An installation where \<^verbatim>\<open>shutil.rmtree\<close> raises.\<close>

definition stuck_rmtree_env :: "string env" where
  "stuck_rmtree_env =
     example_env\<lparr>fault := (fault example_env)
       (Rmtree ''/tmp/tfjs_convert_k3x9'' := Some (Exn OSError ''Permission denied''))\<rparr>"

text \<open>An installation where the TensorFlow.js loader raises.\<close>

definition bad_loader_env :: "string env" where
  "bad_loader_env =
     example_env\<lparr>fault := (\<lambda>c. if is_LoadKerasModel c then Some (Exn OtherException ''bad model'')
                                   else None)\<rparr>"

definition empty_world :: "string world" where
  "empty_world = \<lparr>fs_dirs = {}, fs_files = Map.empty, trace = []\<rparr>"

section \<open>Lower-casing\<close>

lemma of_char_lower_char:
  "(of_char (lower_char c) :: nat) =
     (if 65 \<le> (of_char c :: nat) \<and> (of_char c :: nat) \<le> 90 then of_char c + 32 else of_char c)"
  by (simp add: lower_char_def Let_def)

lemma lower_char_eq:
  assumes "(of_char X :: nat) + 32 = of_char x"
    and "(97::nat) \<le> of_char x" and "(of_char x :: nat) \<le> 122"
  shows "lower_char c = x \<longleftrightarrow> c = x \<or> c = X"
proof -
  have "lower_char c = x \<longleftrightarrow> (of_char (lower_char c) :: nat) = of_char x"
    by simp
  also have "\<dots> \<longleftrightarrow> (of_char c :: nat) = of_char x \<or> (of_char c :: nat) = of_char X"
    using assms unfolding of_char_lower_char by (auto simp del: of_char_eq_iff)
  also have "\<dots> \<longleftrightarrow> c = x \<or> c = X"
    by simp
  finally show ?thesis .
qed

lemma lower_char_cases:
  "lower_char c = CHR ''t'' \<longleftrightarrow> c = CHR ''t'' \<or> c = CHR ''T''"
  "lower_char c = CHR ''r'' \<longleftrightarrow> c = CHR ''r'' \<or> c = CHR ''R''"
  "lower_char c = CHR ''u'' \<longleftrightarrow> c = CHR ''u'' \<or> c = CHR ''U''"
  "lower_char c = CHR ''e'' \<longleftrightarrow> c = CHR ''e'' \<or> c = CHR ''E''"
  by (rule lower_char_eq; simp)+

lemma lower_true_iff:
  "lower v = ''true'' \<longleftrightarrow>
     (\<exists>a b c d. v = [a, b, c, d] \<and> lower_char a = CHR ''t'' \<and> lower_char b = CHR ''r''
        \<and> lower_char c = CHR ''u'' \<and> lower_char d = CHR ''e'')"
  unfolding lower_def
  by (simp add: map_eq_Cons_conv) blast

lemma lower_true_spellings:
  "lower v = ''true'' \<longleftrightarrow>
     (\<exists>a b c d. v = [a, b, c, d] \<and> a \<in> {CHR ''t'', CHR ''T''} \<and> b \<in> {CHR ''r'', CHR ''R''}
        \<and> c \<in> {CHR ''u'', CHR ''U''} \<and> d \<in> {CHR ''e'', CHR ''E''})"
  unfolding lower_true_iff lower_char_cases by simp

lemmas lower_eval = lower_def lower_char_def char_of_def bit_Suc_0_iff

lemma has_file_iff: "has_file req k \<longleftrightarrow> map_of (files req) k \<noteq> None"
  by (simp add: has_file_def map_of_eq_None_iff)

lemmas example_defs = example_env_def example_request_def empty_request_def no_tensorflow_env_def
  no_tensorflowjs_env_def empty_world_def example_topology_def example_patched_def
  stuck_rmtree_env_def
  bad_loader_env_def

lemmas run_defs = convert_model_def convert_try_def convert_staged_def stage_uploads_def
  load_model_def to_tflite_def deliver_def import_both_def
  parse_metadata_def mkdtemp_def mkdtemp_path_def save_def read_json_def patch_and_rewrite_def
  write_json_def patch_manifest_def with_manifest_def
  getsize_def load_keras_model_def summary_def from_keras_model_def convert_def write_bytes_def
  send_file_def cleanup_def perform_def outcome_of_def bindE_def returnE_def log_def
  path_join_def path_exists_def rmtree_effect_def under_def metadata_str_def quantize_flag_def
  lower_def lower_char_def char_of_def bit_Suc_0_iff configure_def error_response_def
  jsonify_def with_status_def new_events_def missing_dependency_def has_file_def

section \<open>Runs only append to the log\<close>

lemma tidy_returnE: "tidy S (returnE x)"
  by (simp add: tidy_def returnE_def)

lemma tidy_perform:
  assumes "c \<in> S" and "\<And>w. trace (effect w) = trace w \<and> fs_dirs (effect w) = fs_dirs w"
  shows "tidy S (\<lambda>w. perform c (outcome w) effect w)"
  using assms by (auto simp: tidy_def perform_def log_def raised_def split: sum.splits)

lemma tidy_bindE:
  assumes m: "tidy S m" and f: "\<And>x. tidy S (f x)"
  shows "tidy S (bindE m f)"
  unfolding tidy_def
proof
  fix w
  from m obtain evs1 where 1: "trace (snd (m w)) = trace w @ evs1"
    "fs_dirs (snd (m w)) = fs_dirs w" "call_of ` set evs1 \<subseteq> S"
    "\<forall>c e. Raised c e \<in> set evs1 \<longrightarrow> raised (fst (m w)) = Some e"
    unfolding tidy_def by blast
  show "\<exists>evs. trace (snd (bindE m f w)) = trace w @ evs \<and> fs_dirs (snd (bindE m f w)) = fs_dirs w
        \<and> call_of ` set evs \<subseteq> S
        \<and> (\<forall>c e. Raised c e \<in> set evs \<longrightarrow> raised (fst (bindE m f w)) = Some e)"
  proof (cases "fst (m w)")
    case (Inl e)
    then have "snd (bindE m f w) = snd (m w)" "raised (fst (bindE m f w)) = raised (fst (m w))"
      by (cases "m w"; simp add: bindE_def raised_def)+
    with 1 show ?thesis by auto
  next
    case (Inr x)
    then have b: "bindE m f w = f x (snd (m w))"
      by (cases "m w") (simp add: bindE_def)
    from f[of x] obtain evs2 where 2: "trace (snd (f x (snd (m w)))) = trace (snd (m w)) @ evs2"
      "fs_dirs (snd (f x (snd (m w)))) = fs_dirs (snd (m w))" "call_of ` set evs2 \<subseteq> S"
      "\<forall>c e. Raised c e \<in> set evs2 \<longrightarrow> raised (fst (f x (snd (m w)))) = Some e"
      unfolding tidy_def by blast
    from 1(4) Inr have no: "\<forall>c e. Raised c e \<notin> set evs1" by (auto simp: raised_def)
    show ?thesis
      apply (rule exI[of _ "evs1 @ evs2"])
      using 1 2 no b by auto
  qed
qed

lemma tidy_save: "Save p (data f) \<in> S \<Longrightarrow> tidy S (save env f p)"
  unfolding save_def by (rule tidy_perform) auto

lemma tidy_read_json: "ReadJson p \<in> S \<Longrightarrow> tidy S (read_json env p)"
  unfolding read_json_def by (rule tidy_perform) auto

lemma tidy_write_json: "WriteJson p (json_dumps env j) \<in> S \<Longrightarrow> tidy S (write_json env p j)"
  unfolding write_json_def by (rule tidy_perform) auto

lemma tidy_patch_and_rewrite:
  "PatchManifest \<in> S \<Longrightarrow> (\<And>t. WriteJson p t \<in> S) \<Longrightarrow> tidy S (patch_and_rewrite env p cfg)"
  unfolding patch_and_rewrite_def
  by (intro tidy_bindE tidy_perform) (auto simp: tidy_returnE intro!: tidy_bindE tidy_write_json)

lemma tidy_stage_uploads:
  assumes "\<And>p t. Save p t \<in> S" "\<And>p. ReadJson p \<in> S" "PatchManifest \<in> S" "\<And>p t. WriteJson p t \<in> S"
  shows "tidy S (stage_uploads env mj wb d)"
  unfolding stage_uploads_def
  by (intro tidy_bindE tidy_save tidy_read_json tidy_patch_and_rewrite assms)

lemma tidy_getsize: "Getsize p \<in> S \<Longrightarrow> tidy S (getsize env p)"
  unfolding getsize_def by (rule tidy_perform) auto

lemma tidy_load_keras_model: "LoadKerasModel p \<in> S \<Longrightarrow> tidy S (load_keras_model env p)"
  unfolding load_keras_model_def by (rule tidy_perform) auto

lemma tidy_summary: "Summary m \<in> S \<Longrightarrow> tidy S (summary env m)"
  unfolding summary_def by (rule tidy_perform) auto

lemma tidy_write_bytes: "WriteBytes p b \<in> S \<Longrightarrow> tidy S (write_bytes env p b)"
  unfolding write_bytes_def by (rule tidy_perform) auto

lemma tidy_send_file: "SendFile p \<in> S \<Longrightarrow> tidy S (send_file env p mime name)"
  unfolding send_file_def by (rule tidy_perform) auto

lemma tidy_load_model:
  assumes "TopologyKeys \<in> S" "\<And>p. Getsize p \<in> S" "LoadKerasModel (path_join d ''model.json'') \<in> S"
    "\<And>m. Summary m \<in> S"
  shows "tidy S (load_model env d cfg)"
  unfolding load_model_def
  by (intro tidy_bindE tidy_perform tidy_getsize tidy_load_keras_model tidy_summary tidy_returnE assms) auto

lemma tidy_to_tflite:
  assumes "FromKerasModel m \<in> S" "Convert (configure q (fresh_converter env m)) \<in> S"
  shows "tidy S (to_tflite env q m)"
  using assms
  by (auto simp: tidy_def to_tflite_def bindE_def from_keras_model_def convert_def perform_def
      outcome_of_def log_def raised_def split: option.splits)

lemma tidy_deliver:
  assumes "\<And>p b. WriteBytes p b \<in> S" "\<And>p. SendFile p \<in> S"
  shows "tidy S (deliver env d b)"
  unfolding deliver_def
  by (intro tidy_bindE tidy_write_bytes tidy_send_file assms)

lemma tidy_convert_staged: "tidy (staged_calls env q d) (convert_staged env mj wb q md d)"
  unfolding convert_staged_def
  by (intro tidy_bindE tidy_stage_uploads tidy_load_model tidy_to_tflite tidy_deliver)
     (auto simp: staged_calls_def)

section \<open>The shape of a run of \<^verbatim>\<open>convert_model\<close>\<close>

lemma mkdtemp_cases:
  "mkdtemp env ''tfjs_convert_'' w =
     (case fault env (Mkdtemp ''tfjs_convert_'') of
        Some e \<Rightarrow> (Inl e, log (Raised (Mkdtemp ''tfjs_convert_'') e) w)
      | None \<Rightarrow> (Inr (mkdtemp_path env ''tfjs_convert_''), created env w))"
  by (simp add: mkdtemp_def perform_def outcome_of_def created_def split: option.splits)

lemma convert_try_cases:
  obtains
    (early) r where "convert_try env req w = (r, None, w)"
  | (nodir) e where "convert_try env req w =
        (Inl e, None, log (Raised (Mkdtemp ''tfjs_convert_'') e) w)"
  | (staged) mj wb md where
      "import_both env = Inr None"
      "map_of (files req) ''model_json'' = Some mj"
      "map_of (files req) ''weights_bin'' = Some wb"
      "parse_metadata env (metadata_str req) = Inr md"
      "fault env (Mkdtemp ''tfjs_convert_'') = None"
      "convert_try env req w =
         (fst (convert_staged env mj wb (quantize_flag req) md
                 (mkdtemp_path env ''tfjs_convert_'') (created env w)),
          Some (mkdtemp_path env ''tfjs_convert_''),
          snd (convert_staged env mj wb (quantize_flag req) md
                 (mkdtemp_path env ''tfjs_convert_'') (created env w)))"
proof (cases "import_both env")
  case (Inl e)
  then show ?thesis using early by (simp add: convert_try_def)
next
  case (Inr found)
  show ?thesis
  proof (cases found)
    case (Some r)
    with Inr show ?thesis using early by (simp add: convert_try_def)
  next
    case None
    note imp = Inr [unfolded None]
    show ?thesis
    proof (cases "map_of (files req) ''model_json''")
      case None
      with imp show ?thesis using early by (simp add: convert_try_def)
    next
      case mj: (Some mj)
      show ?thesis
      proof (cases "map_of (files req) ''weights_bin''")
        case None
        with imp mj show ?thesis using early by (simp add: convert_try_def)
      next
        case wb: (Some wb)
        show ?thesis
        proof (cases "parse_metadata env (metadata_str req)")
          case (Inl e)
          with imp mj wb show ?thesis using early by (simp add: convert_try_def)
        next
          case md: (Inr md)
          show ?thesis
          proof (cases "fault env (Mkdtemp ''tfjs_convert_'')")
            case (Some e)
            with imp mj wb md show ?thesis
              using nodir by (simp add: convert_try_def mkdtemp_cases)
          next
            case None
            with imp mj wb md show ?thesis
              using staged [of mj wb md]
              by (simp add: convert_try_def mkdtemp_cases split: prod.splits)
          qed
        qed
      qed
    qed
  qed
qed

lemma mkdtemp_path_nonempty: "mkdtemp_path env ''tfjs_convert_'' \<noteq> []"
  by (simp add: mkdtemp_path_def path_join_def)

lemma trace_rmtree_effect: "trace (rmtree_effect d w) = trace w"
  by (simp add: rmtree_effect_def)

lemma cleanup_None: "cleanup env None w = w"
  by (simp add: cleanup_def)

lemma cleanup_Some:
  assumes "d \<noteq> []" and "d \<in> fs_dirs w"
  shows "cleanup env (Some d) w =
     (case fault env (Rmtree d) of
        None \<Rightarrow> log (Did (Rmtree d)) (rmtree_effect d w)
      | Some e \<Rightarrow> log (Raised (Rmtree d) e) w)"
  using assms
  by (simp add: cleanup_def path_exists_def perform_def outcome_of_def split: option.splits)

lemma new_events_eq: "trace w' = trace w @ evs \<Longrightarrow> new_events w w' = evs"
  by (simp add: new_events_def)

lemma convert_try_staged:
  assumes "import_both env = Inr None"
    and "map_of (files req) ''model_json'' = Some mj"
    and "map_of (files req) ''weights_bin'' = Some wb"
    and "parse_metadata env (metadata_str req) = Inr md"
    and "fault env (Mkdtemp ''tfjs_convert_'') = None"
  shows "convert_try env req w =
     (fst (convert_staged env mj wb (quantize_flag req) md
             (mkdtemp_path env ''tfjs_convert_'') (created env w)),
      Some (mkdtemp_path env ''tfjs_convert_''),
      snd (convert_staged env mj wb (quantize_flag req) md
             (mkdtemp_path env ''tfjs_convert_'') (created env w)))"
  using assms by (simp add: convert_try_def mkdtemp_cases split: prod.splits)

text \<open>
  A run that gets its scratch directory \<open>d\<close>: the log gains the \<^verbatim>\<open>mkdtemp\<close>, the calls of
  the body, and the \<^verbatim>\<open>rmtree\<close> of the \<^verbatim>\<open>finally\<close> block, which is always attempted.
\<close>

lemma staged_run:
  assumes "import_both env = Inr None"
    and "map_of (files req) ''model_json'' = Some mj"
    and "map_of (files req) ''weights_bin'' = Some wb"
    and "parse_metadata env (metadata_str req) = Inr md"
    and "fault env (Mkdtemp ''tfjs_convert_'') = None"
  obtains evs w2 where
    "convert_staged env mj wb (quantize_flag req) md (mkdtemp_path env ''tfjs_convert_'')
       (created env w) = (fst (convert_try env req w), w2)"
    "trace w2 = trace w @ Did (Mkdtemp ''tfjs_convert_'') # evs"
    "fs_dirs w2 = insert (mkdtemp_path env ''tfjs_convert_'') (fs_dirs w)"
    "call_of ` set evs \<subseteq>
       staged_calls env (quantize_flag req) (mkdtemp_path env ''tfjs_convert_'')"
    "\<forall>c e. Raised c e \<in> set evs \<longrightarrow> fst (convert_try env req w) = Inl e"
    "snd (convert_model env req w) =
       (case fault env (Rmtree (mkdtemp_path env ''tfjs_convert_'')) of
          None \<Rightarrow> log (Did (Rmtree (mkdtemp_path env ''tfjs_convert_'')))
                    (rmtree_effect (mkdtemp_path env ''tfjs_convert_'') w2)
        | Some e \<Rightarrow> log (Raised (Rmtree (mkdtemp_path env ''tfjs_convert_'')) e) w2)"
proof -
  let ?d = "mkdtemp_path env ''tfjs_convert_''"
  let ?run = "convert_staged env mj wb (quantize_flag req) md ?d (created env w)"
  note ct = convert_try_staged [OF assms, of w]
  from tidy_convert_staged [of env "quantize_flag req" ?d mj wb md]
  obtain evs where evs: "trace (snd ?run) = trace (created env w) @ evs"
    "fs_dirs (snd ?run) = fs_dirs (created env w)"
    "call_of ` set evs \<subseteq> staged_calls env (quantize_flag req) ?d"
    "\<forall>c e. Raised c e \<in> set evs \<longrightarrow> raised (fst ?run) = Some e"
    unfolding tidy_def by blast
  have 1: "?run = (fst (convert_try env req w), snd ?run)"
    by (simp add: ct)
  have 2: "trace (snd ?run) = trace w @ Did (Mkdtemp ''tfjs_convert_'') # evs"
    using evs(1) by (simp add: created_def log_def)
  have 3: "fs_dirs (snd ?run) = insert ?d (fs_dirs w)"
    using evs(2) by (simp add: created_def log_def)
  have 5: "\<forall>c e. Raised c e \<in> set evs \<longrightarrow> fst (convert_try env req w) = Inl e"
    using evs(4) by (auto simp: ct raised_def split: sum.splits)
  have "?d \<in> fs_dirs (snd ?run)"
    using 3 by simp
  from cleanup_Some [OF mkdtemp_path_nonempty this, of env]
  have 6: "snd (convert_model env req w) =
       (case fault env (Rmtree ?d) of
          None \<Rightarrow> log (Did (Rmtree ?d)) (rmtree_effect ?d (snd ?run))
        | Some e \<Rightarrow> log (Raised (Rmtree ?d) e) (snd ?run))"
    by (simp add: convert_model_def ct)
  from 1 2 3 evs(3) 5 6 show ?thesis by (rule that)
qed

text \<open>The \<^verbatim>\<open>except Exception\<close> clause: whatever the \<^verbatim>\<open>try\<close> body raises is reported.\<close>

lemma convert_model_catches:
  "fst (convert_try env req w) = Inl e \<Longrightarrow>
     fst (convert_model env req w) = error_response 500 (str_exn e)"
  by (cases "convert_try env req w") (simp add: convert_model_def)

text \<open>
  What a run of the handler adds to the log: the calls of the \<^verbatim>\<open>try\<close> body, then at most
  one \<^verbatim>\<open>rmtree\<close>. An exception logged in the body is the one the response reports.
\<close>

lemma convert_model_run:
  obtains evs fin where
    "new_events w (snd (convert_model env req w)) = evs @ fin"
    "\<forall>ev \<in> set fin. is_Rmtree (call_of ev)"
    "call_of ` set evs \<subseteq>
       insert (Mkdtemp ''tfjs_convert_'')
         (staged_calls env (quantize_flag req) (mkdtemp_path env ''tfjs_convert_''))"
    "\<forall>c e. Raised c e \<in> set evs \<longrightarrow>
       fst (convert_model env req w) = error_response 500 (str_exn e)"
proof (cases rule: convert_try_cases [of env req w])
  case (early r)
  then have "new_events w (snd (convert_model env req w)) = [] @ []"
    by (simp add: convert_model_def cleanup_None new_events_def)
  then show ?thesis using that [of "[]" "[]"] by simp
next
  case (nodir e)
  then have "new_events w (snd (convert_model env req w)) = [Raised (Mkdtemp ''tfjs_convert_'') e] @ []"
    and "fst (convert_model env req w) = error_response 500 (str_exn e)"
    by (simp_all add: convert_model_def cleanup_None new_events_def log_def)
  then show ?thesis using that [of "[Raised (Mkdtemp ''tfjs_convert_'') e]" "[]"] by simp
next
  case (staged mj wb md)
  obtain evs w2 where r:
    "trace w2 = trace w @ Did (Mkdtemp ''tfjs_convert_'') # evs"
    "call_of ` set evs \<subseteq>
       staged_calls env (quantize_flag req) (mkdtemp_path env ''tfjs_convert_'')"
    "\<forall>c e. Raised c e \<in> set evs \<longrightarrow> fst (convert_try env req w) = Inl e"
    "snd (convert_model env req w) =
       (case fault env (Rmtree (mkdtemp_path env ''tfjs_convert_'')) of
          None \<Rightarrow> log (Did (Rmtree (mkdtemp_path env ''tfjs_convert_'')))
                    (rmtree_effect (mkdtemp_path env ''tfjs_convert_'') w2)
        | Some e \<Rightarrow> log (Raised (Rmtree (mkdtemp_path env ''tfjs_convert_'')) e) w2)"
    by (rule staged_run [OF staged(1-5), of w]) blast
  obtain fin where fin:
    "new_events w (snd (convert_model env req w)) = (Did (Mkdtemp ''tfjs_convert_'') # evs) @ fin"
    "\<forall>ev \<in> set fin. is_Rmtree (call_of ev)"
    using r(1,4)
    by (cases "fault env (Rmtree (mkdtemp_path env ''tfjs_convert_''))")
       (simp_all add: new_events_def log_def trace_rmtree_effect)
  have "call_of ` set (Did (Mkdtemp ''tfjs_convert_'') # evs) \<subseteq>
       insert (Mkdtemp ''tfjs_convert_'')
         (staged_calls env (quantize_flag req) (mkdtemp_path env ''tfjs_convert_''))"
    using r(2) by auto
  moreover have "\<forall>c e. Raised c e \<in> set (Did (Mkdtemp ''tfjs_convert_'') # evs) \<longrightarrow>
       fst (convert_model env req w) = error_response 500 (str_exn e)"
    using r(3) by (auto simp: convert_model_def split: prod.splits)
  ultimately show ?thesis
    using fin that [of "Did (Mkdtemp ''tfjs_convert_'') # evs" fin] by blast
qed

section \<open>Example runs\<close>

lemma example_run:
  "new_events empty_world (snd (convert_model example_env example_request empty_world)) =
     [Did (Mkdtemp ''tfjs_convert_''),
      Did (Save ''/tmp/tfjs_convert_k3x9/model.json'' ''topology''),
      Did (Save ''/tmp/tfjs_convert_k3x9/weights.bin'' ''0000''),
      Did (ReadJson ''/tmp/tfjs_convert_k3x9/model.json''),
      Did PatchManifest,
      Did (WriteJson ''/tmp/tfjs_convert_k3x9/model.json'' ''patched topology''),
      Did TopologyKeys,
      Did (Getsize ''/tmp/tfjs_convert_k3x9/weights.bin''),
      Did (LoadKerasModel ''/tmp/tfjs_convert_k3x9/model.json''),
      Did (Summary ''keras''),
      Did (FromKerasModel ''keras''),
      Did (Convert \<lparr>keras_model = ''keras'', optimizations = [DEFAULT], supported_types = [float16]\<rparr>),
      Did (WriteBytes ''/tmp/tfjs_convert_k3x9/model.tflite'' ''TFL3''),
      Did (SendFile ''/tmp/tfjs_convert_k3x9/model.tflite''),
      Did (Rmtree ''/tmp/tfjs_convert_k3x9'')]"
  by (simp add: run_defs example_defs)

lemma example_run_unquantized:
  "new_events empty_world
     (snd (convert_model example_env (example_request\<lparr>args := []\<rparr>) empty_world)) =
     [Did (Mkdtemp ''tfjs_convert_''),
      Did (Save ''/tmp/tfjs_convert_k3x9/model.json'' ''topology''),
      Did (Save ''/tmp/tfjs_convert_k3x9/weights.bin'' ''0000''),
      Did (ReadJson ''/tmp/tfjs_convert_k3x9/model.json''),
      Did PatchManifest,
      Did (WriteJson ''/tmp/tfjs_convert_k3x9/model.json'' ''patched topology''),
      Did TopologyKeys,
      Did (Getsize ''/tmp/tfjs_convert_k3x9/weights.bin''),
      Did (LoadKerasModel ''/tmp/tfjs_convert_k3x9/model.json''),
      Did (Summary ''keras''),
      Did (FromKerasModel ''keras''),
      Did (Convert \<lparr>keras_model = ''keras'', optimizations = [], supported_types = []\<rparr>),
      Did (WriteBytes ''/tmp/tfjs_convert_k3x9/model.tflite'' ''TFL3''),
      Did (SendFile ''/tmp/tfjs_convert_k3x9/model.tflite''),
      Did (Rmtree ''/tmp/tfjs_convert_k3x9'')]"
  by (simp add: run_defs example_defs)

lemma bad_loader_run:
  "new_events empty_world (snd (convert_model bad_loader_env example_request empty_world)) =
     [Did (Mkdtemp ''tfjs_convert_''),
      Did (Save ''/tmp/tfjs_convert_k3x9/model.json'' ''topology''),
      Did (Save ''/tmp/tfjs_convert_k3x9/weights.bin'' ''0000''),
      Did (ReadJson ''/tmp/tfjs_convert_k3x9/model.json''),
      Did PatchManifest,
      Did (WriteJson ''/tmp/tfjs_convert_k3x9/model.json'' ''patched topology''),
      Did TopologyKeys,
      Did (Getsize ''/tmp/tfjs_convert_k3x9/weights.bin''),
      Raised (LoadKerasModel ''/tmp/tfjs_convert_k3x9/model.json'') (Exn OtherException ''bad model''),
      Did (Rmtree ''/tmp/tfjs_convert_k3x9'')]"
  by (simp add: run_defs example_defs)

lemma stuck_rmtree_run:
  "new_events empty_world (snd (convert_model stuck_rmtree_env example_request empty_world)) =
     [Did (Mkdtemp ''tfjs_convert_''),
      Did (Save ''/tmp/tfjs_convert_k3x9/model.json'' ''topology''),
      Did (Save ''/tmp/tfjs_convert_k3x9/weights.bin'' ''0000''),
      Did (ReadJson ''/tmp/tfjs_convert_k3x9/model.json''),
      Did PatchManifest,
      Did (WriteJson ''/tmp/tfjs_convert_k3x9/model.json'' ''patched topology''),
      Did TopologyKeys,
      Did (Getsize ''/tmp/tfjs_convert_k3x9/weights.bin''),
      Did (LoadKerasModel ''/tmp/tfjs_convert_k3x9/model.json''),
      Did (Summary ''keras''),
      Did (FromKerasModel ''keras''),
      Did (Convert \<lparr>keras_model = ''keras'', optimizations = [DEFAULT], supported_types = [float16]\<rparr>),
      Did (WriteBytes ''/tmp/tfjs_convert_k3x9/model.tflite'' ''TFL3''),
      Did (SendFile ''/tmp/tfjs_convert_k3x9/model.tflite''),
      Raised (Rmtree ''/tmp/tfjs_convert_k3x9'') (Exn OSError ''Permission denied'')]"
  by (simp add: run_defs example_defs)

section \<open>The metadata is not read\<close>

lemma convert_staged_metadata:
  "convert_staged env mj wb q md d = convert_staged env mj wb q md' d"
  by (simp add: convert_staged_def)

lemma parse_metadata_total:
  assumes "\<forall>e. json_loads env s = Inl e \<longrightarrow> is_JSONDecodeError e"
  shows "\<exists>md. parse_metadata env s = Inr md"
  using assms by (cases "json_loads env s") (simp_all add: parse_metadata_def)

section \<open>The removal does not reach the response\<close>

lemma outcome_of_upd:
  "\<not> is_Rmtree c \<Longrightarrow>
     outcome_of (env\<lparr>fault := (fault env)(Rmtree d := x)\<rparr>) c v = outcome_of env c v"
  by (cases c) (simp_all add: outcome_of_def)

lemma steps_upd:
  "mkdtemp (env\<lparr>fault := (fault env)(Rmtree d := x)\<rparr>) = mkdtemp env"
  "save (env\<lparr>fault := (fault env)(Rmtree d := x)\<rparr>) = save env"
  "read_json (env\<lparr>fault := (fault env)(Rmtree d := x)\<rparr>) = read_json env"
  "patch_and_rewrite (env\<lparr>fault := (fault env)(Rmtree d := x)\<rparr>) = patch_and_rewrite env"
  "topology_keys (env\<lparr>fault := (fault env)(Rmtree d := x)\<rparr>) = topology_keys env"
  "getsize (env\<lparr>fault := (fault env)(Rmtree d := x)\<rparr>) = getsize env"
  "load_keras_model (env\<lparr>fault := (fault env)(Rmtree d := x)\<rparr>) = load_keras_model env"
  "summary (env\<lparr>fault := (fault env)(Rmtree d := x)\<rparr>) = summary env"
  "from_keras_model (env\<lparr>fault := (fault env)(Rmtree d := x)\<rparr>) = from_keras_model env"
  "convert (env\<lparr>fault := (fault env)(Rmtree d := x)\<rparr>) = convert env"
  "write_bytes (env\<lparr>fault := (fault env)(Rmtree d := x)\<rparr>) = write_bytes env"
  "send_file (env\<lparr>fault := (fault env)(Rmtree d := x)\<rparr>) = send_file env"
proof -
  let ?env = "env\<lparr>fault := (fault env)(Rmtree d := x)\<rparr>"
  show "mkdtemp ?env = mkdtemp env"
    by (intro ext) (simp add: mkdtemp_def mkdtemp_path_def outcome_of_upd)
  show "save ?env = save env"
    by (intro ext) (simp add: save_def outcome_of_upd)
  show "read_json ?env = read_json env"
    by (intro ext) (simp add: read_json_def cong: option.case_cong)
  have c: "py_contains ?env = py_contains env"
  proof (intro ext)
    fix j k show "py_contains ?env j k = py_contains env j k" by (cases j) simp_all
  qed
  have g: "py_getitem ?env = py_getitem env"
  proof (intro ext)
    fix j k show "py_getitem ?env j k = py_getitem env j k"
      by (cases j) (simp_all cong: option.case_cong)
  qed
  have i: "py_iter ?env = py_iter env"
  proof (intro ext)
    fix j show "py_iter ?env j = py_iter env j" by (cases j) simp_all
  qed
  have s: "set_paths ?env = set_paths env"
  proof (intro ext)
    fix j show "set_paths ?env j = set_paths env j" by (cases j) simp_all
  qed
  have a: "set_all_paths ?env = set_all_paths env"
  proof (intro ext)
    fix js show "set_all_paths ?env js = set_all_paths env js"
    proof (induction js)
      case Nil
      show ?case by simp
    next
      case (Cons j js)
      show ?case unfolding set_all_paths.simps s Cons.IH by (rule refl)
    qed
  qed
  have p: "patch_manifest ?env = patch_manifest env"
    unfolding patch_manifest_def c g i a by (rule refl)
  have w: "write_json ?env = write_json env"
    by (intro ext) (simp add: write_json_def outcome_of_upd)
  show "patch_and_rewrite ?env = patch_and_rewrite env"
    unfolding patch_and_rewrite_def p w by (rule refl)
  show "topology_keys ?env = topology_keys env"
  proof (intro ext)
    fix j show "topology_keys ?env j = topology_keys env j" by (cases j) simp_all
  qed
  show "getsize ?env = getsize env"
    by (intro ext) (simp add: getsize_def cong: option.case_cong)
  show "load_keras_model ?env = load_keras_model env"
    by (intro ext) (simp add: load_keras_model_def outcome_of_upd)
  show "summary ?env = summary env"
    by (intro ext) (simp add: summary_def outcome_of_upd)
  show "from_keras_model ?env = from_keras_model env"
    by (intro ext) (simp add: from_keras_model_def outcome_of_upd)
  show "convert ?env = convert env"
    by (intro ext) (simp add: convert_def outcome_of_upd)
  show "write_bytes ?env = write_bytes env"
    by (intro ext) (simp add: write_bytes_def outcome_of_upd)
  show "send_file ?env = send_file env"
    by (intro ext) (simp add: send_file_def cong: option.case_cong)
qed

lemma convert_try_upd:
  "convert_try (env\<lparr>fault := (fault env)(Rmtree d := x)\<rparr>) req w = convert_try env req w"
proof -
  let ?env = "env\<lparr>fault := (fault env)(Rmtree d := x)\<rparr>"
  have ib: "import_both ?env = import_both env"
    by (simp add: import_both_def cong: sum.case_cong)
  have pm: "parse_metadata ?env = parse_metadata env"
    by (intro ext) (simp add: parse_metadata_def)
  have cs: "convert_staged ?env = convert_staged env"
    unfolding convert_staged_def stage_uploads_def load_model_def to_tflite_def deliver_def
      steps_upd by (rule refl)
  show ?thesis
    unfolding convert_try_def ib pm cs steps_upd by (rule refl)
qed

lemma path_exists_rmtree:
  "\<not> path_exists (log ev (rmtree_effect d w)) d"
  "under d p \<Longrightarrow> \<not> path_exists (log ev (rmtree_effect d w)) p"
  by (simp_all add: path_exists_def rmtree_effect_def log_def)

section \<open>The patched manifest\<close>

lemma map_of_dict_set: "map_of (dict_set k v kvs) k = Some v"
  by (induction kvs) auto

lemma map_of_dict_set_other: "k' \<noteq> k \<Longrightarrow> map_of (dict_set k v kvs) k' = map_of kvs k'"
  by (induction kvs) auto

lemma set_all_paths_objects:
  assumes "\<forall>m \<in> set ms. \<exists>kv. m = JObj kv"
  shows "set_all_paths env ms =
     Inr (map (\<lambda>m. case m of
                      JObj kv \<Rightarrow> JObj (dict_set ''paths'' (JArr [JStr ''weights.bin'']) kv)
                    | x \<Rightarrow> x) ms)"
  using assms by (induction ms) auto

lemma patch_manifest_list:
  assumes "map_of kvs ''weightsManifest'' = Some (JArr ms)"
    and "\<forall>m \<in> set ms. \<exists>kv. m = JObj kv"
  shows "patch_manifest env (JObj kvs) =
     Inr (JObj (dict_set ''weightsManifest''
            (JArr (map (\<lambda>m. case m of
                      JObj kv \<Rightarrow> JObj (dict_set ''paths'' (JArr [JStr ''weights.bin'']) kv)
                    | x \<Rightarrow> x) ms)) kvs), True)"
proof -
  from assms(1) have "''weightsManifest'' \<in> fst ` set kvs"
    by (metis map_of_eq_None_iff option.distinct(1))
  then show ?thesis
    using assms by (simp add: patch_manifest_def set_all_paths_objects with_manifest_def)
qed

lemma path_json_neq_bin: "path_join d ''model.json'' \<noteq> path_join d ''weights.bin''"
  by (simp add: path_join_def)

text \<open>
  When the uploads are staged without an exception, the topology read back is the upload,
  and its patched form has been written over it.
\<close>

lemma stage_uploads_result:
  assumes "stage_uploads env mj wb d w = (Inr x, w')"
    and "json_loads env (data mj) = Inr cfg"
    and "patch_manifest env cfg = Inr (cfg', True)"
  shows "x = cfg' \<and>
     Did (WriteJson (path_join d ''model.json'') (json_dumps env cfg')) \<in> set (new_events w w')"
  using assms
  by (auto simp: stage_uploads_def save_def read_json_def patch_and_rewrite_def write_json_def
      perform_def outcome_of_def bindE_def returnE_def log_def new_events_def path_json_neq_bin
      split: option.splits sum.splits if_splits prod.splits)

lemma tidy_after_staging:
  "tidy UNIV (bindE (load_model env d x) (\<lambda>model.
     bindE (to_tflite env q model) (\<lambda>tflite_model. deliver env d tflite_model)))"
  by (intro tidy_bindE tidy_load_model tidy_to_tflite tidy_deliver) simp_all

lemma convert_staged_order:
  assumes "json_loads env (data mj) = Inr cfg"
    and "patch_manifest env cfg = Inr (cfg', True)"
  shows "\<exists>pre post. new_events w (snd (convert_staged env mj wb q md d w)) = pre @ post
     \<and> (\<forall>ev \<in> set pre. \<not> is_LoadKerasModel (call_of ev))
     \<and> (post = [] \<or>
          Did (WriteJson (path_join d ''model.json'') (json_dumps env cfg')) \<in> set pre)"
proof -
  obtain r1 w1 where s: "stage_uploads env mj wb d w = (r1, w1)"
    by (cases "stage_uploads env mj wb d w")
  have "tidy {c. \<not> is_LoadKerasModel c} (stage_uploads env mj wb d)"
    by (rule tidy_stage_uploads) simp_all
  then obtain pre where pre: "trace w1 = trace w @ pre"
    "call_of ` set pre \<subseteq> {c. \<not> is_LoadKerasModel c}"
    unfolding tidy_def using s by (metis snd_conv)
  have no: "\<forall>ev \<in> set pre. \<not> is_LoadKerasModel (call_of ev)"
    using pre(2) by auto
  show ?thesis
  proof (cases r1)
    case (Inl e)
    then have "convert_staged env mj wb q md d w = (Inl e, w1)"
      by (simp add: convert_staged_def bindE_def s)
    then have "new_events w (snd (convert_staged env mj wb q md d w)) = pre @ []"
      using pre(1) by (simp add: new_events_def)
    with no show ?thesis by blast
  next
    case (Inr x)
    let ?rest = "bindE (load_model env d x) (\<lambda>model.
       bindE (to_tflite env q model) (\<lambda>tflite_model. deliver env d tflite_model))"
    have cs: "convert_staged env mj wb q md d w = ?rest w1"
      by (simp add: convert_staged_def bindE_def s Inr)
    from tidy_after_staging [of env d x q]
    obtain post where post: "trace (snd (?rest w1)) = trace w1 @ post"
      unfolding tidy_def by blast
    have ne: "new_events w (snd (convert_staged env mj wb q md d w)) = pre @ post"
      using pre(1) post by (simp add: cs new_events_def)
    from stage_uploads_result [OF s [unfolded Inr] assms]
    have "Did (WriteJson (path_join d ''model.json'') (json_dumps env cfg')) \<in> set pre"
      using pre(1) by (simp add: new_events_def)
    with ne no show ?thesis by blast
  qed
qed

lemma preceded_in_log:
  assumes "xs = a @ b @ c"
    and "\<forall>x \<in> set a. \<not> L x" and "\<forall>x \<in> set c. \<not> L x"
    and "b = [] \<or> y \<in> set a"
    and "j < length xs" and "L (xs ! j)"
  shows "\<exists>i<j. xs ! i = y"
proof -
  have ja: "\<not> j < length a"
    using assms(1,2,6) by (auto simp: nth_append)
  have "b \<noteq> []"
  proof
    assume "b = []"
    with assms(1,5) ja have "xs ! j = c ! (j - length a)" "j - length a < length c"
      by (auto simp: nth_append)
    with assms(3,6) show False by (metis nth_mem)
  qed
  with assms(4) obtain i where "i < length a" "a ! i = y"
    by (auto simp: in_set_conv_nth)
  with assms(1) ja have "i < j" "xs ! i = y"
    by (auto simp: nth_append)
  then show ?thesis by blast
qed

text \<open>
  A topology on which lines 81 to 83 raise (a manifest that is not a list of objects) never
  reaches the loader.
\<close>

lemma stage_uploads_unpatched:
  assumes "stage_uploads env mj wb d w = (r, w')"
    and "json_loads env (data mj) = Inr cfg"
    and "patch_manifest env cfg = Inl e"
  shows "\<exists>e'. r = Inl e'"
  using assms
  by (auto simp: stage_uploads_def save_def read_json_def patch_and_rewrite_def
      perform_def outcome_of_def bindE_def log_def path_json_neq_bin
      split: option.splits sum.splits if_splits prod.splits)

lemma unpatched_topology_never_loaded:
  assumes "map_of (files req) ''model_json'' = Some mj"
    and "json_loads env (data mj) = Inr cfg"
    and "patch_manifest env cfg = Inl e"
  shows "\<forall>ev \<in> set (new_events w (snd (convert_model env req w))).
           \<not> is_LoadKerasModel (call_of ev)"
proof (cases rule: convert_try_cases [of env req w])
  case (early r)
  then have "new_events w (snd (convert_model env req w)) = []"
    by (simp add: convert_model_def cleanup_None new_events_def)
  then show ?thesis by simp
next
  case (nodir e')
  then have "new_events w (snd (convert_model env req w)) = [Raised (Mkdtemp ''tfjs_convert_'') e']"
    by (simp add: convert_model_def cleanup_None new_events_def log_def)
  then show ?thesis by simp
next
  case (staged mj' wb md)
  let ?d = "mkdtemp_path env ''tfjs_convert_''"
  from staged(2) assms(1) have mj: "mj' = mj" by simp
  obtain evs w2 where r:
    "convert_staged env mj wb (quantize_flag req) md ?d (created env w) =
       (fst (convert_try env req w), w2)"
    "trace w2 = trace w @ Did (Mkdtemp ''tfjs_convert_'') # evs"
    "snd (convert_model env req w) =
       (case fault env (Rmtree ?d) of
          None \<Rightarrow> log (Did (Rmtree ?d)) (rmtree_effect ?d w2)
        | Some e \<Rightarrow> log (Raised (Rmtree ?d) e) w2)"
    by (rule staged_run [OF staged(1-5) [unfolded mj], of w]) blast
  obtain fin where fin:
    "new_events w (snd (convert_model env req w)) = Did (Mkdtemp ''tfjs_convert_'') # evs @ [fin]"
    "is_Rmtree (call_of fin)"
    using r(2,3) by (cases "fault env (Rmtree ?d)")
      (simp_all add: new_events_def log_def trace_rmtree_effect)
  obtain r1 w1 where s: "stage_uploads env mj wb ?d (created env w) = (r1, w1)"
    by (cases "stage_uploads env mj wb ?d (created env w)")
  from stage_uploads_unpatched [OF s assms(2,3)] obtain e' where e': "r1 = Inl e'" by blast
  have "tidy {c. \<not> is_LoadKerasModel c} (stage_uploads env mj wb ?d)"
    by (rule tidy_stage_uploads) simp_all
  then obtain pre where pre: "trace w1 = trace (created env w) @ pre"
    "call_of ` set pre \<subseteq> {c. \<not> is_LoadKerasModel c}"
    unfolding tidy_def using s by (metis snd_conv)
  have "convert_staged env mj wb (quantize_flag req) md ?d (created env w) = (Inl e', w1)"
    by (simp add: convert_staged_def bindE_def s e')
  with r(1) have "w2 = w1" by simp
  with r(2) pre(1) have "evs = pre"
    by (simp add: created_def log_def)
  with pre(2) have "\<forall>ev \<in> set evs. \<not> is_LoadKerasModel (call_of ev)" by auto
  moreover have "\<not> is_LoadKerasModel (call_of fin)"
    using fin(2) by (cases "call_of fin") simp_all
  ultimately show ?thesis by (simp add: fin(1))
qed

section \<open>The claims\<close>

text \<open>
  C1, as the code has it. When both imports succeed: a request without the file part
  \<open>model_json\<close> gets status 400 and the message \<open>Missing model_json file\<close>; a request
  with \<open>model_json\<close> and without \<open>weights_bin\<close> gets status 400 and the message
  \<open>Missing weights_bin file\<close>. In both cases the world is as before: no scratch directory,
  no call logged, so no conversion.
\<close>

theorem missing_upload_is_400:
  assumes "import_tensorflow env = Inr v1" and "import_tensorflowjs env = Inr v2"
  shows "(\<not> has_file req ''model_json'' \<longrightarrow>
            convert_model env req w = (error_response 400 ''Missing model_json file'', w))
       \<and> (has_file req ''model_json'' \<and> \<not> has_file req ''weights_bin'' \<longrightarrow>
            convert_model env req w = (error_response 400 ''Missing weights_bin file'', w))"
  using assms
  by (auto simp: has_file_iff convert_model_def convert_try_def import_both_def cleanup_def)

text \<open>No upload at all, and \<open>model_json\<close> alone, on an installation with both libraries.\<close>

theorem missing_upload_is_400_witness:
  "\<not> has_file empty_request ''model_json''
   \<and> convert_model example_env empty_request empty_world =
     (error_response 400 ''Missing model_json file'', empty_world)
   \<and> has_file (example_request\<lparr>files := [hd (files example_request)]\<rparr>) ''model_json''
   \<and> \<not> has_file (example_request\<lparr>files := [hd (files example_request)]\<rparr>) ''weights_bin''
   \<and> convert_model example_env (example_request\<lparr>files := [hd (files example_request)]\<rparr>)
        empty_world =
     (error_response 400 ''Missing weights_bin file'', empty_world)
   \<and> status (error_response 400 ''Missing weights_bin file'') = 400"
proof -
  have i: "import_tensorflow example_env = Inr ''2.15.0''"
    "import_tensorflowjs example_env = Inr ''4.17.0''"
    by (simp_all add: example_env_def)
  have a: "\<not> has_file empty_request ''model_json''"
    by (simp add: has_file_def empty_request_def)
  have b: "has_file (example_request\<lparr>files := [hd (files example_request)]\<rparr>) ''model_json''"
    "\<not> has_file (example_request\<lparr>files := [hd (files example_request)]\<rparr>) ''weights_bin''"
    by (simp_all add: has_file_def example_request_def)
  from missing_upload_is_400 [OF i, of empty_request empty_world]
    missing_upload_is_400 [OF i, of "example_request\<lparr>files := [hd (files example_request)]\<rparr>"
      empty_world] a b
  show ?thesis by (simp add: error_response_def with_status_def jsonify_def)
qed

text \<open>
  C1 as stated fails: TensorFlow is missing, the request has no \<open>model_json\<close> part, and the
  status is 500, not 400.
\<close>

theorem missing_upload_counterexample:
  "\<not> has_file empty_request ''model_json''
   \<and> status (fst (convert_model no_tensorflow_env empty_request empty_world)) = 500
   \<and> status (fst (convert_model no_tensorflow_env empty_request empty_world)) \<noteq> 400"
  by (simp add: no_tensorflow_env_def example_env_def empty_request_def has_file_def
      convert_model_def convert_try_def import_both_def error_response_def with_status_def
      jsonify_def)

text \<open>
  C2. Whenever the handler calls \<^verbatim>\<open>converter.convert()\<close>, the converter is the one
  \<^verbatim>\<open>from_keras_model\<close> returned, with \<^verbatim>\<open>optimizations = [DEFAULT]\<close> and
  \<^verbatim>\<open>supported_types = [float16]\<close> assigned when the \<^verbatim>\<open>quantize\<close> flag is set, and
  untouched when it is not.
\<close>

theorem converter_configured_by_flag:
  assumes "ev \<in> set (new_events w (snd (convert_model env req w)))"
    and "call_of ev = Convert c"
  shows "\<exists>m. c = (if quantize_flag req
                  then (fresh_converter env m)\<lparr>optimizations := [DEFAULT], supported_types := [float16]\<rparr>
                  else fresh_converter env m)"
proof -
  obtain evs fin where run: "new_events w (snd (convert_model env req w)) = evs @ fin"
    "\<forall>ev \<in> set fin. is_Rmtree (call_of ev)"
    "call_of ` set evs \<subseteq>
       insert (Mkdtemp ''tfjs_convert_'')
         (staged_calls env (quantize_flag req) (mkdtemp_path env ''tfjs_convert_''))"
    by (rule convert_model_run [of w env req]) blast
  from assms run(1,2) have "ev \<in> set evs" by force
  with run(3) assms(2) have "Convert c \<in> staged_calls env (quantize_flag req) (mkdtemp_path env ''tfjs_convert_'')"
    by force
  then show ?thesis by (simp add: staged_calls_def configure_def)
qed

text \<open>The example request with \<^verbatim>\<open>quantize=True\<close>, and the same request without the flag.\<close>

theorem converter_configured_by_flag_witness:
  "quantize_flag example_request
   \<and> Did (Convert \<lparr>keras_model = ''keras'', optimizations = [DEFAULT],
                     supported_types = [float16]\<rparr>)
     \<in> set (new_events empty_world (snd (convert_model example_env example_request empty_world)))
   \<and> (\<exists>m. \<lparr>keras_model = ''keras'', optimizations = [DEFAULT], supported_types = [float16]\<rparr> =
        (fresh_converter example_env m)\<lparr>optimizations := [DEFAULT],
                                        supported_types := [float16]\<rparr>)
   \<and> \<not> quantize_flag (example_request\<lparr>args := []\<rparr>)
   \<and> Did (Convert \<lparr>keras_model = ''keras'', optimizations = [], supported_types = []\<rparr>)
     \<in> set (new_events empty_world
              (snd (convert_model example_env (example_request\<lparr>args := []\<rparr>) empty_world)))
   \<and> (\<exists>m. \<lparr>keras_model = ''keras'', optimizations = [], supported_types = []\<rparr> =
        fresh_converter example_env m)"
proof -
  let ?c = "\<lparr>keras_model = ''keras'', optimizations = [DEFAULT], supported_types = [float16]\<rparr>"
  let ?plain = "\<lparr>keras_model = ''keras'', optimizations = [], supported_types = []\<rparr>"
  have h: "Did (Convert ?c)
     \<in> set (new_events empty_world (snd (convert_model example_env example_request empty_world)))"
    unfolding example_run by simp
  have h0: "Did (Convert ?plain)
     \<in> set (new_events empty_world
              (snd (convert_model example_env (example_request\<lparr>args := []\<rparr>) empty_world)))"
    unfolding example_run_unquantized by simp
  have q: "quantize_flag example_request"
    by (simp add: quantize_flag_def example_request_def lower_eval)
  have q0: "\<not> quantize_flag (example_request\<lparr>args := []\<rparr>)"
    by (simp add: quantize_flag_def example_request_def lower_eval)
  have c: "call_of (Did (Convert ?c)) = Convert ?c" "call_of (Did (Convert ?plain)) = Convert ?plain"
    by simp_all
  from converter_configured_by_flag [OF h c(1)] q
  have a: "\<exists>m. ?c = (fresh_converter example_env m)\<lparr>optimizations := [DEFAULT],
                                                    supported_types := [float16]\<rparr>"
    by simp
  from converter_configured_by_flag [OF h0 c(2)] q0
  have b: "\<exists>m. ?plain = fresh_converter example_env m"
    by simp
  from q h a q0 h0 b show ?thesis by (intro conjI)
qed

text \<open>
  C3. Let the uploaded \<open>model_json\<close> parse to a JSON object whose \<open>weightsManifest\<close>
  is a list of objects. Then lines 81 to 83 turn it into the same object with the
  \<open>paths\<close> entry of every element of that list set to \<open>[weights.bin]\<close> (\<open>ms'\<close> below),
  and in every run of the handler a call of \<^verbatim>\<open>load_keras_model\<close> is a call on
  \<open>model.json\<close> in the scratch directory and comes after the call that wrote the
  rewritten JSON to that path has returned.
\<close>

theorem manifest_rewritten_before_load:
  assumes "map_of (files req) ''model_json'' = Some mj"
    and "json_loads env (data mj) = Inr (JObj kvs)"
    and "map_of kvs ''weightsManifest'' = Some (JArr ms)"
    and "\<forall>m \<in> set ms. \<exists>kv. m = JObj kv"
  shows "\<exists>ms'.
       ms' = map (\<lambda>m. case m of
                        JObj kv \<Rightarrow> JObj (dict_set ''paths'' (JArr [JStr ''weights.bin'']) kv)
                      | x \<Rightarrow> x) ms
     \<and> (\<forall>m' \<in> set ms'. \<exists>kv'. m' = JObj kv'
            \<and> map_of kv' ''paths'' = Some (JArr [JStr ''weights.bin'']))
     \<and> patch_manifest env (JObj kvs) =
         Inr (JObj (dict_set ''weightsManifest'' (JArr ms') kvs), True)
     \<and> (\<forall>j < length (new_events w (snd (convert_model env req w))).
          is_LoadKerasModel (call_of (new_events w (snd (convert_model env req w)) ! j)) \<longrightarrow>
            call_of (new_events w (snd (convert_model env req w)) ! j) =
              LoadKerasModel (path_join (mkdtemp_path env ''tfjs_convert_'') ''model.json'')
          \<and> (\<exists>i<j. new_events w (snd (convert_model env req w)) ! i =
                Did (WriteJson (path_join (mkdtemp_path env ''tfjs_convert_'') ''model.json'')
                       (json_dumps env (JObj (dict_set ''weightsManifest'' (JArr ms') kvs))))))"
proof -
  let ?d = "mkdtemp_path env ''tfjs_convert_''"
  let ?p = "path_join ?d ''model.json''"
  let ?ms' = "map (\<lambda>m. case m of
                        JObj kv \<Rightarrow> JObj (dict_set ''paths'' (JArr [JStr ''weights.bin'']) kv)
                      | x \<Rightarrow> x) ms"
  let ?cfg' = "JObj (dict_set ''weightsManifest'' (JArr ?ms') kvs)"
  let ?evs = "new_events w (snd (convert_model env req w))"
  let ?L = "\<lambda>ev. is_LoadKerasModel (call_of ev)"
  have entries: "\<forall>m' \<in> set ?ms'. \<exists>kv'. m' = JObj kv'
            \<and> map_of kv' ''paths'' = Some (JArr [JStr ''weights.bin''])"
    using assms(4) by (auto simp: map_of_dict_set)
  have patch: "patch_manifest env (JObj kvs) = Inr (?cfg', True)"
    by (rule patch_manifest_list [OF assms(3,4)])
  have order: "?L (?evs ! j) \<longrightarrow>
        call_of (?evs ! j) = LoadKerasModel ?p
        \<and> (\<exists>i<j. ?evs ! i = Did (WriteJson ?p (json_dumps env ?cfg')))"
    if j: "j < length ?evs" for j
  proof (cases rule: convert_try_cases [of env req w])
    case (early r)
    then have "?evs = []"
      by (simp add: convert_model_def cleanup_None new_events_def)
    with j show ?thesis by simp
  next
    case (nodir e)
    then have "?evs = [Raised (Mkdtemp ''tfjs_convert_'') e]"
      by (simp add: convert_model_def cleanup_None new_events_def log_def)
    with j show ?thesis by simp
  next
    case (staged mj' wb md)
    with assms(1) have mj: "mj' = mj" by simp
    obtain evs w2 where r:
      "convert_staged env mj wb (quantize_flag req) md ?d (created env w) =
         (fst (convert_try env req w), w2)"
      "trace w2 = trace w @ Did (Mkdtemp ''tfjs_convert_'') # evs"
      "call_of ` set evs \<subseteq> staged_calls env (quantize_flag req) ?d"
      "snd (convert_model env req w) =
         (case fault env (Rmtree ?d) of
            None \<Rightarrow> log (Did (Rmtree ?d)) (rmtree_effect ?d w2)
          | Some e \<Rightarrow> log (Raised (Rmtree ?d) e) w2)"
      by (rule staged_run [OF staged(1-5) [unfolded mj], of w]) blast
    obtain fin where fin: "?evs = Did (Mkdtemp ''tfjs_convert_'') # evs @ [fin]"
      "is_Rmtree (call_of fin)"
      using r(2,4) by (cases "fault env (Rmtree ?d)")
        (simp_all add: new_events_def log_def trace_rmtree_effect)
    have evs: "new_events (created env w) w2 = evs"
      using r(2) by (simp add: new_events_def created_def log_def)
    from convert_staged_order [OF assms(2) patch, of "created env w" wb "quantize_flag req" md ?d]
    obtain pre post where pp: "evs = pre @ post"
      "\<forall>ev \<in> set pre. \<not> ?L ev"
      "post = [] \<or> Did (WriteJson ?p (json_dumps env ?cfg')) \<in> set pre"
      unfolding r(1) snd_conv evs by blast
    show ?thesis
    proof
      assume l: "?L (?evs ! j)"
      have split: "?evs = (Did (Mkdtemp ''tfjs_convert_'') # pre) @ post @ [fin]"
        by (simp add: fin(1) pp(1))
      have a: "\<forall>x \<in> set (Did (Mkdtemp ''tfjs_convert_'') # pre). \<not> ?L x"
        using pp(2) by simp
      have c: "\<forall>x \<in> set [fin]. \<not> ?L x"
        using fin(2) by (cases "call_of fin") simp_all
      have b: "post = [] \<or> Did (WriteJson ?p (json_dumps env ?cfg'))
                 \<in> set (Did (Mkdtemp ''tfjs_convert_'') # pre)"
        using pp(3) by auto
      from preceded_in_log [OF split a c b j] l
      have before: "\<exists>i<j. ?evs ! i = Did (WriteJson ?p (json_dumps env ?cfg'))"
        by blast
      have "?evs ! j \<in> set ?evs" using j by simp
      with l a c have "?evs ! j \<in> set evs"
        unfolding split using pp(1) by auto
      with r(3) have "call_of (?evs ! j) \<in> staged_calls env (quantize_flag req) ?d"
        by blast
      with l have "call_of (?evs ! j) = LoadKerasModel ?p"
        by (cases "call_of (?evs ! j)") (simp_all add: staged_calls_def)
      with before show "call_of (?evs ! j) = LoadKerasModel ?p
        \<and> (\<exists>i<j. ?evs ! i = Did (WriteJson ?p (json_dumps env ?cfg')))"
        by blast
    qed
  qed
  from entries patch order show ?thesis by blast
qed

text \<open>
  The example upload: its manifest entry names \<open>group1-shard1of1.bin\<close>; the loader is the
  ninth call of the run and the rewritten topology is written before it.
\<close>

theorem manifest_rewritten_before_load_witness:
  "patch_manifest example_env example_topology = Inr (example_patched, True)
   \<and> new_events empty_world (snd (convert_model example_env example_request empty_world)) ! 8
       = Did (LoadKerasModel ''/tmp/tfjs_convert_k3x9/model.json'')
   \<and> (\<exists>i<8. new_events empty_world
                (snd (convert_model example_env example_request empty_world)) ! i
              = Did (WriteJson ''/tmp/tfjs_convert_k3x9/model.json'' ''patched topology''))"
proof -
  let ?evs = "new_events empty_world (snd (convert_model example_env example_request empty_world))"
  let ?kvs = "[(''modelTopology'', JObj [(''class_name'', JStr ''Sequential'')]),
           (''weightsManifest'',
              JArr [JObj [(''paths'', JArr [JStr ''group1-shard1of1.bin'']),
                          (''weights'', JArr [])]])]"
  let ?ms = "[JObj [(''paths'', JArr [JStr ''group1-shard1of1.bin'']), (''weights'', JArr [])]]"
  have h1: "map_of (files example_request) ''model_json'' =
      Some \<lparr>filename = ''model.json'', data = ''topology''\<rparr>"
    by (simp add: example_request_def)
  have h2: "json_loads example_env (data \<lparr>filename = ''model.json'', data = ''topology''\<rparr>) =
      Inr (JObj ?kvs)"
    by (simp add: example_env_def example_topology_def)
  have h3: "map_of ?kvs ''weightsManifest'' = Some (JArr ?ms)"
    by simp
  have h4: "\<forall>m \<in> set ?ms. \<exists>kv. m = JObj kv"
    by simp
  have p: "JObj (dict_set ''weightsManifest''
      (JArr (map (\<lambda>m. case m of
                        JObj kv \<Rightarrow> JObj (dict_set ''paths'' (JArr [JStr ''weights.bin'']) kv)
                      | x \<Rightarrow> x) ?ms)) ?kvs) = example_patched"
    by (simp add: example_patched_def)
  have d: "path_join (mkdtemp_path example_env ''tfjs_convert_'') ''model.json''
      = ''/tmp/tfjs_convert_k3x9/model.json''"
    by (simp add: mkdtemp_path_def path_join_def example_env_def)
  have w: "json_dumps example_env example_patched = ''patched topology''"
    by (simp add: example_env_def)
  have l: "8 < length ?evs" "?evs ! 8 = Did (LoadKerasModel ''/tmp/tfjs_convert_k3x9/model.json'')"
    unfolding example_run by simp_all
  have il: "is_LoadKerasModel (call_of (?evs ! 8))"
    by (simp add: l(2))
  from manifest_rewritten_before_load [OF h1 h2 h3 h4, of empty_world]
  show ?thesis
  proof (elim exE conjE)
    fix ms'
    assume a: "ms' = map (\<lambda>m. case m of
                        JObj kv \<Rightarrow> JObj (dict_set ''paths'' (JArr [JStr ''weights.bin'']) kv)
                      | x \<Rightarrow> x) ?ms"
      and c: "patch_manifest example_env (JObj ?kvs) =
         Inr (JObj (dict_set ''weightsManifest'' (JArr ms') ?kvs), True)"
      and o: "\<forall>j < length ?evs.
          is_LoadKerasModel (call_of (?evs ! j)) \<longrightarrow>
            call_of (?evs ! j) =
              LoadKerasModel (path_join (mkdtemp_path example_env ''tfjs_convert_'') ''model.json'')
          \<and> (\<exists>i<j. ?evs ! i =
                Did (WriteJson (path_join (mkdtemp_path example_env ''tfjs_convert_'') ''model.json'')
                       (json_dumps example_env
                          (JObj (dict_set ''weightsManifest'' (JArr ms') ?kvs)))))"
    from c have c': "patch_manifest example_env example_topology = Inr (example_patched, True)"
      unfolding a p by (simp add: example_topology_def)
    from o [rule_format, OF l(1) il]
    have "\<exists>i<8. ?evs ! i =
        Did (WriteJson ''/tmp/tfjs_convert_k3x9/model.json'' ''patched topology'')"
      unfolding a p d w by (rule conjunct2)
    with c' l(2) show ?thesis by (intro conjI)
  qed
qed

text \<open>
  C4. An exception raised by any call the handler makes on the way from creating the
  scratch directory to sending the file (staging the uploads, reading and parsing the
  topology, patching it, loading the model, converting, writing the result) is caught: the
  handler returns, with status 500 and the JSON object whose one field \<open>error\<close> holds the
  exception's message. The one call left out is the \<^verbatim>\<open>rmtree\<close> of the \<^verbatim>\<open>finally\<close>
  block, whose exception is dropped.
\<close>

theorem convert_model_reports_exception:
  assumes "Raised c e \<in> set (new_events w (snd (convert_model env req w)))"
    and "\<not> is_Rmtree c"
  shows "fst (convert_model env req w) = error_response 500 (str_exn e)
         \<and> status (fst (convert_model env req w)) = 500
         \<and> payload (fst (convert_model env req w)) = Json (JObj [(''error'', JStr (str_exn e))])"
proof -
  obtain evs fin where run: "new_events w (snd (convert_model env req w)) = evs @ fin"
    "\<forall>ev \<in> set fin. is_Rmtree (call_of ev)"
    "\<forall>c e. Raised c e \<in> set evs \<longrightarrow>
       fst (convert_model env req w) = error_response 500 (str_exn e)"
    by (rule convert_model_run [of w env req]) blast
  from assms run(1,2) have "Raised c e \<in> set evs" by force
  with run(3) have "fst (convert_model env req w) = error_response 500 (str_exn e)" by blast
  then show ?thesis by (simp add: error_response_def with_status_def jsonify_def)
qed

text \<open>The TensorFlow.js loader raises on the example upload.\<close>

theorem convert_model_reports_exception_witness:
  "Raised (LoadKerasModel ''/tmp/tfjs_convert_k3x9/model.json'') (Exn OtherException ''bad model'')
     \<in> set (new_events empty_world (snd (convert_model bad_loader_env example_request empty_world)))
   \<and> fst (convert_model bad_loader_env example_request empty_world) = error_response 500 ''bad model''"
proof -
  have h: "Raised (LoadKerasModel ''/tmp/tfjs_convert_k3x9/model.json'')
             (Exn OtherException ''bad model'')
     \<in> set (new_events empty_world (snd (convert_model bad_loader_env example_request empty_world)))"
    unfolding bad_loader_run by simp
  have n: "\<not> is_Rmtree (LoadKerasModel ''/tmp/tfjs_convert_k3x9/model.json'' :: string call)" by simp
  from convert_model_reports_exception [OF h n] h show ?thesis by simp
qed

text \<open>
  C5. A request that gets as far as its metadata (both imports succeed, both files are
  uploaded) and whose \<^verbatim>\<open>metadata\<close> field is not valid JSON (\<^verbatim>\<open>json.loads\<close> raises
  \<^verbatim>\<open>JSONDecodeError\<close>) is not aborted: \<^verbatim>\<open>metadata\<close> becomes the empty dict, and the
  handler goes on to \<^verbatim>\<open>tempfile.mkdtemp\<close> and the rest of the body, which alone decide
  the response.
\<close>

theorem malformed_metadata_defaults:
  assumes "json_loads env (metadata_str req) = Inl e" and "is_JSONDecodeError e"
    and "import_tensorflow env = Inr v1" and "import_tensorflowjs env = Inr v2"
    and "map_of (files req) ''model_json'' = Some mj"
    and "map_of (files req) ''weights_bin'' = Some wb"
  shows "parse_metadata env (metadata_str req) = Inr (JObj [])
     \<and> convert_try env req w =
         (case mkdtemp env ''tfjs_convert_'' w of
            (Inl e', w1) \<Rightarrow> (Inl e', None, w1)
          | (Inr tmp_dir, w1) \<Rightarrow>
              (case convert_staged env mj wb (quantize_flag req) (JObj []) tmp_dir w1 of
                 (r, w2) \<Rightarrow> (r, Some tmp_dir, w2)))
     \<and> (\<exists>ev rest. new_events w (snd (convert_model env req w)) = ev # rest
           \<and> call_of ev = Mkdtemp ''tfjs_convert_'')"
proof -
  have pm: "parse_metadata env (metadata_str req) = Inr (JObj [])"
    using assms(1,2) by (simp add: parse_metadata_def)
  have ib: "import_both env = Inr None"
    using assms(3,4) by (simp add: import_both_def)
  have ct: "convert_try env req w =
         (case mkdtemp env ''tfjs_convert_'' w of
            (Inl e', w1) \<Rightarrow> (Inl e', None, w1)
          | (Inr tmp_dir, w1) \<Rightarrow>
              (case convert_staged env mj wb (quantize_flag req) (JObj []) tmp_dir w1 of
                 (r, w2) \<Rightarrow> (r, Some tmp_dir, w2)))"
    using pm ib assms(5,6) by (simp add: convert_try_def)
  have "\<exists>ev rest. new_events w (snd (convert_model env req w)) = ev # rest
           \<and> call_of ev = Mkdtemp ''tfjs_convert_''"
  proof (cases "fault env (Mkdtemp ''tfjs_convert_'')")
    case (Some e')
    then have "new_events w (snd (convert_model env req w)) = [Raised (Mkdtemp ''tfjs_convert_'') e']"
      by (simp add: convert_model_def ct mkdtemp_cases cleanup_None new_events_def log_def)
    then show ?thesis by simp
  next
    case None
    obtain evs w2 where r: "trace w2 = trace w @ Did (Mkdtemp ''tfjs_convert_'') # evs"
      "snd (convert_model env req w) =
       (case fault env (Rmtree (mkdtemp_path env ''tfjs_convert_'')) of
          None \<Rightarrow> log (Did (Rmtree (mkdtemp_path env ''tfjs_convert_'')))
                    (rmtree_effect (mkdtemp_path env ''tfjs_convert_'') w2)
        | Some e \<Rightarrow> log (Raised (Rmtree (mkdtemp_path env ''tfjs_convert_'')) e) w2)"
      by (rule staged_run [OF ib assms(5,6) pm None, of w]) blast
    then show ?thesis
      by (cases "fault env (Rmtree (mkdtemp_path env ''tfjs_convert_''))")
         (simp_all add: new_events_def log_def trace_rmtree_effect)
  qed
  with pm ct show ?thesis by blast
qed

text \<open>The example request carries the metadata \<open>{not json\<close> and is converted.\<close>

theorem malformed_metadata_defaults_witness:
  "metadata_str example_request = ''{not json''
   \<and> json_loads example_env ''{not json'' = Inl (Exn JSONDecodeError ''Expecting value'')
   \<and> parse_metadata example_env (metadata_str example_request) = Inr (JObj [])
   \<and> status (fst (convert_model example_env example_request empty_world)) = 200
   \<and> (\<exists>ev rest. new_events empty_world (snd (convert_model example_env example_request empty_world))
         = ev # rest \<and> call_of ev = Mkdtemp ''tfjs_convert_'')"
proof -
  have m: "metadata_str example_request = ''{not json''"
    by (simp add: metadata_str_def example_request_def)
  have l: "json_loads example_env ''{not json'' = Inl (Exn JSONDecodeError ''Expecting value'')"
    by (simp add: example_env_def)
  have h1: "json_loads example_env (metadata_str example_request) =
      Inl (Exn JSONDecodeError ''Expecting value'')"
    by (simp add: m l)
  have h2: "is_JSONDecodeError (Exn JSONDecodeError ''Expecting value'')" by simp
  have h3: "import_tensorflow example_env = Inr ''2.15.0''"
    "import_tensorflowjs example_env = Inr ''4.17.0''"
    by (simp_all add: example_env_def)
  have h4: "map_of (files example_request) ''model_json'' =
      Some \<lparr>filename = ''model.json'', data = ''topology''\<rparr>"
    "map_of (files example_request) ''weights_bin'' =
      Some \<lparr>filename = ''weights.bin'', data = ''0000''\<rparr>"
    by (simp_all add: example_request_def)
  have s: "status (fst (convert_model example_env example_request empty_world)) = 200"
    by (simp add: run_defs example_defs)
  from malformed_metadata_defaults [OF h1 h2 h3 h4, of empty_world] m l s
  show ?thesis by blast
qed

text \<open>
  C6, as the code has it. For a request that reaches the creation of the scratch directory
  (both imports succeed, both files are uploaded, the metadata is parsed or defaulted, and
  \<^verbatim>\<open>mkdtemp\<close> returns the directory \<open>d\<close>): whatever the body does, with a success or an
  error response, the last call of the handler is \<^verbatim>\<open>shutil.rmtree(d)\<close>. When that call
  does not raise, neither \<open>d\<close> nor any path below it exists afterwards. When it raises,
  the exception is dropped: the response is the same whatever the removal does.
\<close>

theorem scratch_directory_removed:
  assumes "import_tensorflow env = Inr v1" and "import_tensorflowjs env = Inr v2"
    and "map_of (files req) ''model_json'' = Some mj"
    and "map_of (files req) ''weights_bin'' = Some wb"
    and "parse_metadata env (metadata_str req) = Inr md"
    and "fault env (Mkdtemp ''tfjs_convert_'') = None"
  shows "(\<exists>evs. new_events w (snd (convert_model env req w)) =
            Did (Mkdtemp ''tfjs_convert_'') # evs @
              [case fault env (Rmtree (mkdtemp_path env ''tfjs_convert_'')) of
                 None \<Rightarrow> Did (Rmtree (mkdtemp_path env ''tfjs_convert_''))
               | Some e \<Rightarrow> Raised (Rmtree (mkdtemp_path env ''tfjs_convert_'')) e])
     \<and> (fault env (Rmtree (mkdtemp_path env ''tfjs_convert_'')) = None \<longrightarrow>
          \<not> path_exists (snd (convert_model env req w)) (mkdtemp_path env ''tfjs_convert_'')
          \<and> (\<forall>p. under (mkdtemp_path env ''tfjs_convert_'') p \<longrightarrow>
                \<not> path_exists (snd (convert_model env req w)) p))
     \<and> (\<forall>x. fst (convert_model
                    (env\<lparr>fault := (fault env)(Rmtree (mkdtemp_path env ''tfjs_convert_'') := x)\<rparr>)
                    req w) = fst (convert_model env req w))"
proof -
  let ?d = "mkdtemp_path env ''tfjs_convert_''"
  have ib: "import_both env = Inr None"
    using assms(1,2) by (simp add: import_both_def)
  obtain evs w2 where r: "trace w2 = trace w @ Did (Mkdtemp ''tfjs_convert_'') # evs"
    "snd (convert_model env req w) =
       (case fault env (Rmtree ?d) of
          None \<Rightarrow> log (Did (Rmtree ?d)) (rmtree_effect ?d w2)
        | Some e \<Rightarrow> log (Raised (Rmtree ?d) e) w2)"
    by (rule staged_run [OF ib assms(3-6), of w]) blast
  have 1: "\<exists>evs. new_events w (snd (convert_model env req w)) =
            Did (Mkdtemp ''tfjs_convert_'') # evs @
              [case fault env (Rmtree ?d) of
                 None \<Rightarrow> Did (Rmtree ?d) | Some e \<Rightarrow> Raised (Rmtree ?d) e]"
    using r by (cases "fault env (Rmtree ?d)")
      (simp_all add: new_events_def log_def trace_rmtree_effect)
  have 2: "fault env (Rmtree ?d) = None \<longrightarrow>
          \<not> path_exists (snd (convert_model env req w)) ?d
          \<and> (\<forall>p. under ?d p \<longrightarrow> \<not> path_exists (snd (convert_model env req w)) p)"
    using r(2) by (simp add: path_exists_rmtree)
  have 3: "\<forall>x. fst (convert_model (env\<lparr>fault := (fault env)(Rmtree ?d := x)\<rparr>) req w)
           = fst (convert_model env req w)"
    by (simp add: convert_model_def convert_try_upd split: prod.splits)
  from 1 2 3 show ?thesis by blast
qed

text \<open>
  The example request converted (status 200) and with a failing loader (status 500): the
  scratch directory is gone in both runs; and the response is the same when \<^verbatim>\<open>rmtree\<close>
  raises.
\<close>

theorem scratch_directory_removed_witness:
  "\<not> path_exists (snd (convert_model example_env example_request empty_world))
        ''/tmp/tfjs_convert_k3x9''
   \<and> \<not> path_exists (snd (convert_model bad_loader_env example_request empty_world))
        ''/tmp/tfjs_convert_k3x9''
   \<and> status (fst (convert_model example_env example_request empty_world)) = 200
   \<and> status (fst (convert_model bad_loader_env example_request empty_world)) = 500
   \<and> fst (convert_model stuck_rmtree_env example_request empty_world) =
       fst (convert_model example_env example_request empty_world)"
proof -
  have d: "mkdtemp_path example_env ''tfjs_convert_'' = ''/tmp/tfjs_convert_k3x9''"
    "mkdtemp_path bad_loader_env ''tfjs_convert_'' = ''/tmp/tfjs_convert_k3x9''"
    by (simp_all add: mkdtemp_path_def path_join_def example_defs)
  have i: "import_tensorflow example_env = Inr ''2.15.0''"
    "import_tensorflowjs example_env = Inr ''4.17.0''"
    "import_tensorflow bad_loader_env = Inr ''2.15.0''"
    "import_tensorflowjs bad_loader_env = Inr ''4.17.0''"
    by (simp_all add: example_defs)
  have f: "map_of (files example_request) ''model_json'' =
      Some \<lparr>filename = ''model.json'', data = ''topology''\<rparr>"
    "map_of (files example_request) ''weights_bin'' =
      Some \<lparr>filename = ''weights.bin'', data = ''0000''\<rparr>"
    by (simp_all add: example_request_def)
  have m: "parse_metadata example_env (metadata_str example_request) = Inr (JObj [])"
    "parse_metadata bad_loader_env (metadata_str example_request) = Inr (JObj [])"
    by (simp_all add: parse_metadata_def metadata_str_def example_defs)
  have k: "fault example_env (Mkdtemp ''tfjs_convert_'') = None"
    "fault bad_loader_env (Mkdtemp ''tfjs_convert_'') = None"
    by (simp_all add: example_defs)
  have r: "fault example_env (Rmtree ''/tmp/tfjs_convert_k3x9'') = None"
    "fault bad_loader_env (Rmtree ''/tmp/tfjs_convert_k3x9'') = None"
    by (simp_all add: example_defs)
  have s: "stuck_rmtree_env = example_env\<lparr>fault := (fault example_env)
      (Rmtree ''/tmp/tfjs_convert_k3x9'' := Some (Exn OSError ''Permission denied''))\<rparr>"
    by (simp add: stuck_rmtree_env_def)
  have st: "status (fst (convert_model example_env example_request empty_world)) = 200"
    "status (fst (convert_model bad_loader_env example_request empty_world)) = 500"
    by (simp_all add: run_defs example_defs)
  note t1 = scratch_directory_removed [OF i(1,2) f m(1) k(1), of empty_world, unfolded d]
  note t2 = scratch_directory_removed [OF i(3,4) f m(2) k(2), of empty_world, unfolded d]
  from t1 r(1)
  have a: "\<not> path_exists (snd (convert_model example_env example_request empty_world))
        ''/tmp/tfjs_convert_k3x9''"
    by blast
  from t2 r(2)
  have b: "\<not> path_exists (snd (convert_model bad_loader_env example_request empty_world))
        ''/tmp/tfjs_convert_k3x9''"
    by blast
  from t1 have "fst (convert_model (example_env\<lparr>fault := (fault example_env)
      (Rmtree ''/tmp/tfjs_convert_k3x9'' := Some (Exn OSError ''Permission denied''))\<rparr>)
      example_request empty_world) = fst (convert_model example_env example_request empty_world)"
    by blast
  then have c: "fst (convert_model stuck_rmtree_env example_request empty_world) =
       fst (convert_model example_env example_request empty_world)"
    by (simp only: s)
  from a b st c show ?thesis by blast
qed

text \<open>
  C6 as stated fails: the request reaches the creation of the scratch directory and is
  converted, \<^verbatim>\<open>shutil.rmtree\<close> raises, and the directory is still there when the
  handler has returned.
\<close>

theorem scratch_directory_counterexample:
  "Did (Mkdtemp ''tfjs_convert_'')
     \<in> set (new_events empty_world
              (snd (convert_model stuck_rmtree_env example_request empty_world)))
   \<and> mkdtemp_path stuck_rmtree_env ''tfjs_convert_'' = ''/tmp/tfjs_convert_k3x9''
   \<and> status (fst (convert_model stuck_rmtree_env example_request empty_world)) = 200
   \<and> path_exists (snd (convert_model stuck_rmtree_env example_request empty_world))
        ''/tmp/tfjs_convert_k3x9''"
  unfolding stuck_rmtree_run
  by (simp add: run_defs example_defs)

text \<open>
  C7. When each of the two imports either succeeds or raises an \<^verbatim>\<open>ImportError\<close> (the
  library is missing), \<^verbatim>\<open>health\<close> returns: a 200 JSON response with \<open>status\<close> \<open>ok\<close>,
  and under \<open>tensorflow\<close> and \<open>tensorflowjs\<close> the version found or \<open>not installed\<close>. It
  does not raise.
\<close>

theorem health_reports_versions:
  assumes "\<forall>e. import_tensorflow env = Inl e \<longrightarrow> is_ImportError e"
    and "\<forall>e. import_tensorflowjs env = Inl e \<longrightarrow> is_ImportError e"
  shows "health env =
     Inr (jsonify (JObj
       [(''status'', JStr ''ok''),
        (''server'', JStr ''tfjs-to-tflite-converter''),
        (''tensorflow'',
           JStr (case import_tensorflow env of Inr v \<Rightarrow> v | Inl e \<Rightarrow> ''not installed'')),
        (''tensorflowjs'',
           JStr (case import_tensorflowjs env of Inr v \<Rightarrow> v | Inl e \<Rightarrow> ''not installed''))]))"
  using assms
  by (cases "import_tensorflow env"; cases "import_tensorflowjs env")
     (simp_all add: health_def probe_def)

text \<open>Both libraries installed; TensorFlow missing; TensorFlow.js missing.\<close>

theorem health_reports_versions_witness:
  "health example_env =
     Inr (jsonify (JObj
       [(''status'', JStr ''ok''), (''server'', JStr ''tfjs-to-tflite-converter''),
        (''tensorflow'', JStr ''2.15.0''), (''tensorflowjs'', JStr ''4.17.0'')]))
   \<and> health no_tensorflow_env =
     Inr (jsonify (JObj
       [(''status'', JStr ''ok''), (''server'', JStr ''tfjs-to-tflite-converter''),
        (''tensorflow'', JStr ''not installed''), (''tensorflowjs'', JStr ''4.17.0'')]))
   \<and> health no_tensorflowjs_env =
     Inr (jsonify (JObj
       [(''status'', JStr ''ok''), (''server'', JStr ''tfjs-to-tflite-converter''),
        (''tensorflow'', JStr ''2.15.0''), (''tensorflowjs'', JStr ''not installed'')]))"
proof -
  have a: "\<forall>e. import_tensorflow example_env = Inl e \<longrightarrow> is_ImportError e"
    "\<forall>e. import_tensorflowjs example_env = Inl e \<longrightarrow> is_ImportError e"
    by (simp_all add: example_env_def)
  have b: "\<forall>e. import_tensorflow no_tensorflow_env = Inl e \<longrightarrow> is_ImportError e"
    "\<forall>e. import_tensorflowjs no_tensorflow_env = Inl e \<longrightarrow> is_ImportError e"
    by (simp_all add: no_tensorflow_env_def example_env_def)
  have c: "\<forall>e. import_tensorflow no_tensorflowjs_env = Inl e \<longrightarrow> is_ImportError e"
    "\<forall>e. import_tensorflowjs no_tensorflowjs_env = Inl e \<longrightarrow> is_ImportError e"
    by (simp_all add: no_tensorflowjs_env_def example_env_def)
  from health_reports_versions [OF a] health_reports_versions [OF b]
    health_reports_versions [OF c]
  show ?thesis
    by (simp add: example_env_def no_tensorflow_env_def no_tensorflowjs_env_def)
qed

text \<open>
  C8. Two requests with the same files and the same query parameters, whose \<^verbatim>\<open>metadata\<close>
  fields are each well-formed or malformed JSON (\<^verbatim>\<open>json.loads\<close> returns, or raises
  \<^verbatim>\<open>JSONDecodeError\<close>), get the same response and leave the same world: the body never
  reads \<^verbatim>\<open>metadata\<close>.
\<close>

theorem metadata_does_not_matter:
  assumes "files r1 = files r2" and "args r1 = args r2"
    and "\<forall>e. json_loads env (metadata_str r1) = Inl e \<longrightarrow> is_JSONDecodeError e"
    and "\<forall>e. json_loads env (metadata_str r2) = Inl e \<longrightarrow> is_JSONDecodeError e"
  shows "convert_model env r1 w = convert_model env r2 w"
proof -
  from parse_metadata_total [OF assms(3)] obtain md1
    where md1: "parse_metadata env (metadata_str r1) = Inr md1" by blast
  from parse_metadata_total [OF assms(4)] obtain md2
    where md2: "parse_metadata env (metadata_str r2) = Inr md2" by blast
  have q: "quantize_flag r1 = quantize_flag r2"
    by (simp add: quantize_flag_def assms(2))
  have "convert_try env r1 w = convert_try env r2 w"
    unfolding convert_try_def md1 md2 q assms(1) sum.case
      convert_staged_metadata [of env _ _ _ md1 _ md2]
    by (rule refl)
  then show ?thesis by (simp add: convert_model_def)
qed

text \<open>The example request, with its malformed metadata and with no metadata field.\<close>

theorem metadata_does_not_matter_witness:
  "metadata_str example_request = ''{not json''
   \<and> metadata_str (example_request\<lparr>form := []\<rparr>) = ''{}''
   \<and> convert_model example_env example_request empty_world =
     convert_model example_env (example_request\<lparr>form := []\<rparr>) empty_world"
proof -
  have m: "metadata_str example_request = ''{not json''"
    "metadata_str (example_request\<lparr>form := []\<rparr>) = ''{}''"
    by (simp_all add: metadata_str_def example_request_def)
  have h1: "files example_request = files (example_request\<lparr>form := []\<rparr>)"
    "args example_request = args (example_request\<lparr>form := []\<rparr>)"
    by simp_all
  have h2: "\<forall>e. json_loads example_env (metadata_str example_request) = Inl e \<longrightarrow> is_JSONDecodeError e"
    "\<forall>e. json_loads example_env (metadata_str (example_request\<lparr>form := []\<rparr>)) = Inl e
        \<longrightarrow> is_JSONDecodeError e"
    by (simp_all add: m example_env_def)
  from metadata_does_not_matter [OF h1 h2, of empty_world] m show ?thesis by blast
qed

text \<open>
  C9. \<^verbatim>\<open>quantize\<close> is true exactly when the first value of the query parameter
  \<^verbatim>\<open>quantize\<close>, lower-cased, is the string \<open>true\<close>; the values with that property are
  the sixteen spellings of \<open>true\<close> in small and capital letters. An absent parameter
  stands for \<open>false\<close> and leaves it false, as does every other value.
\<close>

theorem quantize_flag_iff:
  "(quantize_flag req \<longleftrightarrow>
      (\<exists>v. map_of (args req) ''quantize'' = Some v \<and> lower v = ''true''))
   \<and> (\<forall>v. lower v = ''true'' \<longleftrightarrow>
        (\<exists>a b c d. v = [a, b, c, d] \<and> a \<in> {CHR ''t'', CHR ''T''} \<and> b \<in> {CHR ''r'', CHR ''R''}
           \<and> c \<in> {CHR ''u'', CHR ''U''} \<and> d \<in> {CHR ''e'', CHR ''E''}))"
proof -
  have "lower ''false'' \<noteq> ''true''"
    by (simp add: lower_eval)
  then have "quantize_flag req \<longleftrightarrow>
      (\<exists>v. map_of (args req) ''quantize'' = Some v \<and> lower v = ''true'')"
    by (cases "map_of (args req) ''quantize''") (simp_all add: quantize_flag_def)
  with lower_true_spellings show ?thesis by blast
qed

text \<open>The values the claim names: \<open>True\<close> sets the flag, \<open>1\<close>, \<open>yes\<close> and no value do not.\<close>

lemma quantize_flag_examples:
  "quantize_flag (empty_request\<lparr>args := [(''quantize'', ''True'')]\<rparr>)"
  "\<not> quantize_flag (empty_request\<lparr>args := [(''quantize'', ''1'')]\<rparr>)"
  "\<not> quantize_flag (empty_request\<lparr>args := [(''quantize'', ''yes'')]\<rparr>)"
  "\<not> quantize_flag empty_request"
  by (simp_all add: quantize_flag_def empty_request_def lower_eval)

text \<open>
  C10. The imports come before the validation of the uploads. When \<^verbatim>\<open>import tensorflow\<close>
  raises an \<^verbatim>\<open>ImportError\<close> \<open>e\<close>, or it succeeds and \<^verbatim>\<open>import tensorflowjs\<close> raises
  one, then for every request, whatever it uploads, \<^verbatim>\<open>convert_model\<close> returns status 500
  with the message \<open>Missing dependency: e. Install with: ...\<close> and does nothing else; the
  status is never 400.
\<close>

theorem dependency_check_first:
  assumes "is_ImportError e"
    and "import_tensorflow env = Inl e
         \<or> (\<exists>v. import_tensorflow env = Inr v) \<and> import_tensorflowjs env = Inl e"
  shows "convert_model env req w = (error_response 500 (missing_dependency e), w)
         \<and> status (fst (convert_model env req w)) = 500
         \<and> status (fst (convert_model env req w)) \<noteq> 400"
  using assms
  by (auto simp: convert_model_def convert_try_def import_both_def cleanup_def
      error_response_def with_status_def jsonify_def)

text \<open>TensorFlow.js is missing and the request uploads nothing.\<close>

theorem dependency_check_first_witness:
  "\<not> has_file empty_request ''model_json'' \<and> \<not> has_file empty_request ''weights_bin''
   \<and> convert_model no_tensorflowjs_env empty_request empty_world =
     (error_response 500
        (''Missing dependency: No module named tensorflowjs. ''
           @ ''Install with: pip install tensorflow tensorflowjs''), empty_world)
   \<and> status (fst (convert_model no_tensorflowjs_env empty_request empty_world)) = 500"
proof -
  have h1: "is_ImportError (Exn ModuleNotFoundError ''No module named tensorflowjs'')"
    by simp
  have h2: "import_tensorflow no_tensorflowjs_env =
              Inl (Exn ModuleNotFoundError ''No module named tensorflowjs'')
            \<or> (\<exists>v. import_tensorflow no_tensorflowjs_env = Inr v)
              \<and> import_tensorflowjs no_tensorflowjs_env =
                  Inl (Exn ModuleNotFoundError ''No module named tensorflowjs'')"
    by (simp add: no_tensorflowjs_env_def example_env_def)
  have h3: "\<not> has_file empty_request ''model_json'' \<and> \<not> has_file empty_request ''weights_bin''"
    by (simp add: has_file_def empty_request_def)
  from dependency_check_first [OF h1 h2, of empty_request empty_world] h3
  show ?thesis
    by (simp add: missing_dependency_def error_response_def with_status_def jsonify_def)
qed

end
